theory Spec2Isabelle
  imports Main "HOL-Library.Word"
begin

section \<open>Values of the Go program\<close>

text \<open>
  A Go \<open>error\<close> is its message, \<open>None\<close> being \<open>nil\<close>. A byte slice is its content,
  \<open>None\<close> being the \<open>nil\<close> slice; the same holds for a slice of byte slices.
  An \<open>*int64\<close> is the value it points to, \<open>None\<close> being the \<open>nil\<close> pointer, and so
  is a \<open>*string\<close> and an \<open>*int\<close>.
\<close>

type_synonym error = "string option"
type_synonym bytes = "string option"
type_synonym int64ptr = "64 word option"

text \<open>A run of a method either returns or panics (a failed type assertion, a \<open>nil\<close>
  pointer dereference).\<close>

datatype 'a exec = Panic | Done 'a

text \<open>The elements of the \<open>[]interface{}\<close> tuples the cache stores. \<open>VNil\<close> is the
  \<open>nil\<close> interface; a \<open>nil\<close> pointer or slice stored in an interface is not \<open>nil\<close>.\<close>

datatype cache_val =
    VNil
  | VBool bool
  | VString string
  | VInt64Ptr int64ptr
  | VBytes bytes
  | VError string

text \<open>The calls to the outside that a run makes, in order.\<close>

datatype event =
    EvVerifyImage string string
  | EvPullImage string
  | EvSetCache string "cache_val list"

text \<open>Verification result of a verifier: \<open>(bool, string, *int64, error)\<close>.\<close>

type_synonym outcome = "bool \<times> string \<times> int64ptr \<times> error"

text \<open>Result of a fetcher: \<open>([][]byte, string, error)\<close>.\<close>

type_synonym fetched = "bytes list option \<times> string \<times> error"

text \<open>Modelled from the spec: the enumeration \<open>sigtypes.SigType\<close> is declared outside
  \<open>src/\<close>; the spec names the classifications cosign-style, PGP, X.509 and unknown.
  \<open>SigTypeOther\<close> stands for any further value of the type.\<close>

datatype SigType = SigTypeUnknown | SigTypeCosign | SigTypePGP | SigTypeX509 | SigTypeOther

text \<open>\<open>AnnotationConfig\<close>: the annotation keys its methods return.\<close>

record AnnotationConfig =
  ImageRefAnnotationKey :: string
  MessageAnnotationKey :: string
  SignatureAnnotationKey :: string
  CertificateAnnotationKey :: string
  BundleAnnotationKey :: string

text \<open>\<open>corev1.ConfigMap\<close>, as far as this code reads it.\<close>

record ConfigMap =
  GetName :: string
  Data :: "string \<rightharpoonup> string"

section \<open>Collaborators\<close>

text \<open>
  The functions and constants this file calls and that are defined elsewhere are
  parameters of the model: \<open>'c\<close> is the cache, \<open>'i\<close> a pulled image, \<open>'o\<close> a cluster object.
  A function that returns \<open>(value, error)\<close> is a sum, \<open>Inl\<close> the error's message.
\<close>

record ('c, 'i, 'o) env =
  MessageAnnotationBaseName :: string
  SignatureAnnotationBaseName :: string
  CertificateAnnotationBaseName :: string
  BundleAnnotationBaseName :: string
  GetAnnotationsInYAML :: "bytes \<Rightarrow> (string \<rightharpoonup> string)"
  SplitCommaSeparatedString :: "string \<Rightarrow> string list"
  GetCache :: "'c \<Rightarrow> string \<Rightarrow> cache_val list \<times> error"
  SetCache :: "'c \<Rightarrow> string \<Rightarrow> cache_val list \<Rightarrow> 'c \<times> error"
  VerifyImage :: "string \<Rightarrow> string \<Rightarrow> outcome"
  GetSignatureTypeFromPublicKey :: "string option \<Rightarrow> SigType"
  cosign_VerifyBlob :: "bytes \<Rightarrow> bytes \<Rightarrow> bytes \<Rightarrow> bytes \<Rightarrow> string option \<Rightarrow> outcome"
  pgp_VerifyBlob :: "bytes \<Rightarrow> bytes \<Rightarrow> string option \<Rightarrow> outcome"
  x509_VerifyBlob :: "bytes \<Rightarrow> bytes \<Rightarrow> bytes \<Rightarrow> string option \<Rightarrow> outcome"
  PullImage :: "string \<Rightarrow> string + 'i"
  GenerateConcatYAMLsFromImage :: "'i \<Rightarrow> string + bytes"
  SplitConcatYAMLs :: "bytes \<Rightarrow> bytes list"
  FindManifestYAML :: "bytes \<Rightarrow> bytes \<Rightarrow> 64 word option \<Rightarrow> string list \<Rightarrow> bool \<times> bytes list option"
  base64_DecodeString :: "string \<Rightarrow> string + string"
  GzipDecompress :: "bytes \<Rightarrow> bytes"
  GetYAMLsInArtifact :: "bytes \<Rightarrow> string + bytes list"
  ConcatenateYAMLs :: "bytes list \<Rightarrow> bytes"
  parseObjectInCluster :: "string \<Rightarrow> string \<times> string \<times> string \<times> error"
  GetResource :: "string \<Rightarrow> string \<Rightarrow> string \<Rightarrow> string \<Rightarrow> string + 'o"
  json_Marshal :: "'o \<Rightarrow> string + string"
  json_Unmarshal :: "string \<Rightarrow> string + ConfigMap option"

text \<open>
  The state a method runs in: its receiver \<open>self\<close> (the methods have pointer receivers),
  the shared cache, and the calls made so far.
\<close>

record ('r, 'c) state =
  self :: 'r
  cache :: 'c
  trace :: "event list"

section \<open>Library functions\<close>

definition SigRefEmbeddedInAnnotation :: string where
  "SigRefEmbeddedInAnnotation = ''__embedded_in_annotation__''"

text \<open>Modelled from the spec: the constant \<open>InClusterObjectPrefix\<close> is declared outside
  \<open>src/\<close>; the spec's example reference \<open>k8s://ConfigMap/ns1/sig-cm\<close> and the message of
  \<open>GetConfigMapFromK8sObjectRef\<close> show it.\<close>

definition InClusterObjectPrefix :: string where
  "InClusterObjectPrefix = ''k8s://''"

text \<open>\<open>strings.HasPrefix\<close>.\<close>

definition HasPrefix :: "string \<Rightarrow> string \<Rightarrow> bool" where
  "HasPrefix s p = (length p \<le> length s \<and> take (length p) s = p)"

text \<open>\<open>strings.Join\<close>.\<close>

fun Join :: "string list \<Rightarrow> string \<Rightarrow> string" where
  "Join [] sep = []"
| "Join [x] sep = x"
| "Join (x # y # ys) sep = x @ sep @ Join (y # ys) sep"

text \<open>\<open>errors.Wrap\<close> of a non-nil error: the message, a colon, the cause.\<close>

definition Wrap :: "string \<Rightarrow> string \<Rightarrow> string" where
  "Wrap e msg = msg @ '': '' @ e"

text \<open>The verb \<open>%v\<close> of a length: its decimal digits.\<close>

definition digit :: "nat \<Rightarrow> char" where
  "digit d = char_of (48 + d)"

function itoa :: "nat \<Rightarrow> string" where
  "itoa n = (if n < 10 then [digit n] else itoa (n div 10) @ [digit (n mod 10)])"
  by pat_completeness auto
termination
  by (relation "measure id") auto

text \<open>An \<open>error\<close> passed as \<open>interface{}\<close>.\<close>

definition ifaceOfError :: "error \<Rightarrow> cache_val" where
  "ifaceOfError e = (case e of None \<Rightarrow> VNil | Some m \<Rightarrow> VError m)"

text \<open>\<open>allErrs = append(allErrs, err.Error())\<close> under \<open>err != nil\<close>.\<close>

definition appendErr :: "string list \<Rightarrow> error \<Rightarrow> string list" where
  "appendErr allErrs e = (case e of None \<Rightarrow> allErrs | Some m \<Rightarrow> allErrs @ [m])"

section \<open>ImageSignatureVerifier\<close>

record ImageSignatureVerifier =
  imageRef :: string
  pubkeyPathString :: "string option"
  onMemoryCacheEnabled :: bool
  annotationConfig :: AnnotationConfig

definition verifyImageCacheKey :: "string \<Rightarrow> string \<Rightarrow> string" where
  "verifyImageCacheKey ref pubkey = ''cache/verify-image/'' @ ref @ ''/'' @ pubkey"

text \<open>The four type assertions of \<open>getResultFromCache\<close>; each is skipped on \<open>nil\<close> and
  panics on a value of another type.\<close>

definition assertBool :: "cache_val \<Rightarrow> bool exec" where
  "assertBool x = (case x of VNil \<Rightarrow> Done False | VBool b \<Rightarrow> Done b | _ \<Rightarrow> Panic)"

definition assertString :: "cache_val \<Rightarrow> string exec" where
  "assertString x = (case x of VNil \<Rightarrow> Done [] | VString s \<Rightarrow> Done s | _ \<Rightarrow> Panic)"

definition assertInt64Ptr :: "cache_val \<Rightarrow> int64ptr exec" where
  "assertInt64Ptr x = (case x of VNil \<Rightarrow> Done None | VInt64Ptr p \<Rightarrow> Done p | _ \<Rightarrow> Panic)"

definition assertError :: "cache_val \<Rightarrow> error exec" where
  "assertError x = (case x of VNil \<Rightarrow> Done None | VError m \<Rightarrow> Done (Some m) | _ \<Rightarrow> Panic)"

text \<open>\<open>getResultFromCache\<close> returns \<open>(cacheFound, verified, signerName, signedTimestamp, err)\<close>.\<close>

definition getResultFromCache ::
  "('c, 'i, 'o) env \<Rightarrow> (ImageSignatureVerifier, 'c) state \<Rightarrow> string \<Rightarrow> string
    \<Rightarrow> (bool \<times> bool \<times> string \<times> int64ptr \<times> error) exec" where
  "getResultFromCache env s ref pubkey =
     (let key = verifyImageCacheKey ref pubkey;
          resultNum = 4;
          (result, err) = GetCache env (cache s) key
      in if err \<noteq> None then Done (False, False, [], None, None)
         else if length result \<noteq> resultNum then
           Done (False, False, [], None,
             Some (''cache returns inconsistent data: a length of verify image result must be ''
                   @ itoa resultNum @ '', but got '' @ itoa (length result)))
         else
           (case assertBool (result ! 0) of Panic \<Rightarrow> Panic | Done verified \<Rightarrow>
            (case assertString (result ! 1) of Panic \<Rightarrow> Panic | Done signerName \<Rightarrow>
             (case assertInt64Ptr (result ! 2) of Panic \<Rightarrow> Panic | Done signedTimestamp \<Rightarrow>
              (case assertError (result ! 3) of Panic \<Rightarrow> Panic | Done err' \<Rightarrow>
                 Done (True, verified, signerName, signedTimestamp, err'))))))"

text \<open>\<open>setResultToCache\<close>: an error of \<open>SetCache\<close> is logged only.\<close>

definition setResultToCache ::
  "('c, 'i, 'o) env \<Rightarrow> string \<Rightarrow> string \<Rightarrow> outcome
    \<Rightarrow> (ImageSignatureVerifier, 'c) state \<Rightarrow> (ImageSignatureVerifier, 'c) state" where
  "setResultToCache env ref pubkey r s =
     (let (verified, signerName, signedTimestamp, err) = r;
          key = verifyImageCacheKey ref pubkey;
          vals = [VBool verified, VString signerName, VInt64Ptr signedTimestamp, ifaceOfError err];
          (c', setErr) = SetCache env (cache s) key vals
      in s\<lparr>cache := c', trace := trace s @ [EvSetCache key vals]\<rparr>)"

text \<open>The first loop of \<open>Verify\<close>, over the cache. It returns from \<open>Verify\<close> with a
  cached verified result, or ends with \<open>verified\<close>, \<open>cacheFoundCount\<close> and \<open>allErrs\<close>.\<close>

datatype cache_loop = CacheReturn outcome | CacheEnd bool nat "string list"

fun verifyCacheLoop ::
  "('c, 'i, 'o) env \<Rightarrow> (ImageSignatureVerifier, 'c) state \<Rightarrow> string \<Rightarrow> string list
    \<Rightarrow> bool \<Rightarrow> nat \<Rightarrow> string list \<Rightarrow> cache_loop exec" where
  "verifyCacheLoop env s ref [] verified cacheFoundCount allErrs =
     Done (CacheEnd verified cacheFoundCount allErrs)"
| "verifyCacheLoop env s ref (pubkey # pubkeys) verified cacheFoundCount allErrs =
     (case getResultFromCache env s ref pubkey of
        Panic \<Rightarrow> Panic
      | Done (cacheFound, verified', signerName, signedTimestamp, err) \<Rightarrow>
          if cacheFound \<and> verified' then
            Done (CacheReturn (verified', signerName, signedTimestamp, err))
          else
            verifyCacheLoop env s ref pubkeys verified'
              (if cacheFound then cacheFoundCount + 1 else cacheFoundCount)
              (appendErr allErrs err))"

text \<open>The second loop of \<open>Verify\<close>: live verification, key by key.\<close>

fun verifyLiveLoop ::
  "('c, 'i, 'o) env \<Rightarrow> string \<Rightarrow> string list \<Rightarrow> string list
    \<Rightarrow> (ImageSignatureVerifier, 'c) state \<Rightarrow> outcome \<times> (ImageSignatureVerifier, 'c) state" where
  "verifyLiveLoop env ref [] allErrs s =
     ((False, [], None, Some (''signature verification failed: '' @ Join allErrs ''; '')), s)"
| "verifyLiveLoop env ref (pubkey # pubkeys) allErrs s =
     (let (verified, signerName, signedTimestamp, err) = VerifyImage env ref pubkey;
          s1 = s\<lparr>trace := trace s @ [EvVerifyImage ref pubkey]\<rparr>;
          s2 = (if onMemoryCacheEnabled (self s1)
                then setResultToCache env ref pubkey (verified, signerName, signedTimestamp, err) s1
                else s1)
      in if verified then ((verified, signerName, signedTimestamp, err), s2)
         else verifyLiveLoop env ref pubkeys (appendErr allErrs err) s2)"

text \<open>The key list of \<open>Verify\<close>.\<close>

definition verifyPubkeys :: "('c, 'i, 'o) env \<Rightarrow> string option \<Rightarrow> string list" where
  "verifyPubkeys env p =
     (case p of
        None \<Rightarrow> [[]]
      | Some str \<Rightarrow> if str \<noteq> [] then SplitCommaSeparatedString env str else [[]])"

text \<open>The block of \<open>Verify\<close> under \<open>onMemoryCacheEnabled\<close>: \<open>Some\<close> is a return from
  \<open>Verify\<close>, \<open>None\<close> falls through to the live loop.\<close>

definition verifyCacheBlock ::
  "('c, 'i, 'o) env \<Rightarrow> (ImageSignatureVerifier, 'c) state \<Rightarrow> string \<Rightarrow> string list
    \<Rightarrow> outcome option exec" where
  "verifyCacheBlock env s ref pubkeys =
     (if onMemoryCacheEnabled (self s) then
        (case verifyCacheLoop env s ref pubkeys False 0 [] of
           Panic \<Rightarrow> Panic
         | Done (CacheReturn r) \<Rightarrow> Done (Some r)
         | Done (CacheEnd verified cacheFoundCount allErrs) \<Rightarrow>
             if \<not> verified \<and> cacheFoundCount = length pubkeys then
               Done (Some (False, [], None,
                 Some (''signature verification failed: '' @ Join allErrs ''; '')))
             else Done None)
      else Done None)"

definition ImageSignatureVerifier_Verify ::
  "('c, 'i, 'o) env \<Rightarrow> (ImageSignatureVerifier, 'c) state
    \<Rightarrow> outcome exec \<times> (ImageSignatureVerifier, 'c) state" where
  "ImageSignatureVerifier_Verify env s =
     (let ref = imageRef (self s) in
      if ref = [] then (Done (False, [], None, Some ''no image reference is found''), s)
      else
        let pubkeys = verifyPubkeys env (pubkeyPathString (self s)) in
        (case verifyCacheBlock env s ref pubkeys of
           Panic \<Rightarrow> (Panic, s)
         | Done (Some r) \<Rightarrow> (Done r, s)
         | Done None \<Rightarrow>
             (case verifyLiveLoop env ref pubkeys [] s of (r, s') \<Rightarrow> (Done r, s'))))"

section \<open>BlobSignatureVerifier\<close>

text \<open>The fields \<open>pubkeyPathString\<close> and \<open>annotationConfig\<close> carry the prefix \<open>blob\<close>
  here, the names being taken by the record above.\<close>

record BlobSignatureVerifier =
  annotations :: "string \<rightharpoonup> string"
  resourceRef :: string
  blobPubkeyPathString :: "string option"
  blobAnnotationConfig :: AnnotationConfig

text \<open>\<open>GetConfigMapFromK8sObjectRef\<close>; the pointer it returns without an error is
  \<open>nil\<close> when the decoded document is \<open>null\<close>.\<close>

definition GetConfigMapFromK8sObjectRef ::
  "('c, 'i, 'o) env \<Rightarrow> string \<Rightarrow> string + ConfigMap option" where
  "GetConfigMapFromK8sObjectRef env objRef =
     (let (kind, ns, name, err) = parseObjectInCluster env objRef in
      case err of
        Some e \<Rightarrow> Inl (Wrap e ''failed to parse a configmap reference'')
      | None \<Rightarrow>
          if kind \<noteq> ''ConfigMap'' \<and> kind \<noteq> ''configmaps'' \<and> kind \<noteq> ''cm'' then
            Inl (''configmap reference must be '' @ [CHR 0x22]
                 @ ''k8s://ConfigMap/[NAMESPACE]/[NAME]'' @ [CHR 0x22] @ '', but got ''
                 @ objRef)
          else
            (case GetResource env [] kind ns name of
               Inl e \<Rightarrow> Inl (Wrap e ''failed to get a configmap'')
             | Inr cmObj \<Rightarrow>
                 (case json_Marshal env cmObj of
                    Inl e \<Rightarrow> Inl (Wrap e ''failed to marshal a configmap'')
                  | Inr cmBytes \<Rightarrow>
                      (case json_Unmarshal env cmBytes of
                         Inl e \<Rightarrow> Inl (Wrap e ''failed to unmarshal a configmap bytes'')
                       | Inr cm \<Rightarrow> Inr cm))))"

text \<open>The tail of \<open>getSignatures\<close>: an empty string is not stored.\<close>

definition putNonEmpty ::
  "string \<Rightarrow> string \<Rightarrow> (string \<rightharpoonup> string) \<Rightarrow> (string \<rightharpoonup> string)" where
  "putNonEmpty k v m = (if v \<noteq> [] then m(k \<mapsto> v) else m)"

text \<open>A read \<open>m[k]\<close> of a \<open>map[string]string\<close> without the \<open>ok\<close> result.\<close>

definition lookupOrEmpty :: "(string \<rightharpoonup> string) \<Rightarrow> string \<Rightarrow> string" where
  "lookupOrEmpty m k = (case m k of None \<Rightarrow> [] | Some v \<Rightarrow> v)"

definition assembleSigMap ::
  "('c, 'i, 'o) env \<Rightarrow> string \<Rightarrow> string \<Rightarrow> string \<Rightarrow> string \<Rightarrow> (string \<rightharpoonup> string)" where
  "assembleSigMap env msg sig cert bundle =
     putNonEmpty (BundleAnnotationBaseName env) bundle
       (putNonEmpty (CertificateAnnotationBaseName env) cert
         (putNonEmpty (SignatureAnnotationBaseName env) sig
           (putNonEmpty (MessageAnnotationBaseName env) msg Map.empty)))"

definition getSignatures ::
  "('c, 'i, 'o) env \<Rightarrow> (BlobSignatureVerifier, 'c) state
    \<Rightarrow> (string + (string \<rightharpoonup> string)) exec" where
  "getSignatures env s =
     (let v = self s in
      if resourceRef v \<noteq> [] then
        (let cmRef = resourceRef v in
         case GetConfigMapFromK8sObjectRef env cmRef of
           Inl e \<Rightarrow> Done (Inl (Wrap e ''failed to get a configmap''))
         | Inr None \<Rightarrow> Panic
         | Inr (Some cm) \<Rightarrow>
             (case Data cm (MessageAnnotationBaseName env) of
                None \<Rightarrow> Done (Inl (''`'' @ MessageAnnotationBaseName env
                                    @ ''` is not found in the configmap '' @ cmRef))
              | Some msg \<Rightarrow>
                  (case Data cm (SignatureAnnotationBaseName env) of
                     None \<Rightarrow> Done (Inl (''`'' @ SignatureAnnotationBaseName env
                                         @ ''` is not found in the configmap '' @ cmRef))
                   | Some sig \<Rightarrow>
                       Done (Inr (assembleSigMap env msg sig
                         (lookupOrEmpty (Data cm) (CertificateAnnotationBaseName env))
                         (lookupOrEmpty (Data cm) (BundleAnnotationBaseName env)))))))
      else
        (let annos = annotations v;
             messageAnnotationKey = MessageAnnotationKey (blobAnnotationConfig v)
         in case annos messageAnnotationKey of
              None \<Rightarrow> Done (Inl (''`'' @ messageAnnotationKey
                                  @ ''` is not found in the annotations''))
            | Some msg \<Rightarrow>
                (let signatureAnnotationKey = SignatureAnnotationKey (blobAnnotationConfig v)
                 in case annos signatureAnnotationKey of
                      None \<Rightarrow> Done (Inl (''`'' @ signatureAnnotationKey
                                          @ ''` is not found in the annotations''))
                    | Some sig \<Rightarrow>
                        Done (Inr (assembleSigMap env msg sig
                          (lookupOrEmpty annos (CertificateAnnotationKey (blobAnnotationConfig v)))
                          (lookupOrEmpty annos (BundleAnnotationKey (blobAnnotationConfig v))))))))"

definition BlobSignatureVerifier_Verify ::
  "('c, 'i, 'o) env \<Rightarrow> (BlobSignatureVerifier, 'c) state
    \<Rightarrow> outcome exec \<times> (BlobSignatureVerifier, 'c) state" where
  "BlobSignatureVerifier_Verify env s =
     (case getSignatures env s of
        Panic \<Rightarrow> (Panic, s)
      | Done (Inl e) \<Rightarrow> (Done (False, [], None, Some (Wrap e ''failed to get signature'')), s)
      | Done (Inr sigMap) \<Rightarrow>
          (let msgBytes = sigMap (MessageAnnotationBaseName env);
               sigBytes = sigMap (SignatureAnnotationBaseName env);
               certBytes = sigMap (CertificateAnnotationBaseName env);
               bundleBytes = sigMap (BundleAnnotationBaseName env);
               p = blobPubkeyPathString (self s);
               sigType = GetSignatureTypeFromPublicKey env p
           in if sigType = SigTypeUnknown then
                (Done (False, [], None,
                   Some ''failed to judge signature type from public key configuration''), s)
              else if sigType = SigTypeCosign then
                (Done (cosign_VerifyBlob env msgBytes sigBytes certBytes bundleBytes p), s)
              else if sigType = SigTypePGP then
                (Done (pgp_VerifyBlob env msgBytes sigBytes p), s)
              else if sigType = SigTypeX509 then
                (Done (x509_VerifyBlob env msgBytes sigBytes certBytes p), s)
              else (Done (False, [], None, Some ''unknown error''), s)))"

section \<open>NewSignatureVerifier\<close>

datatype SignatureVerifier =
    ImageVerifier ImageSignatureVerifier
  | BlobVerifier BlobSignatureVerifier

definition NewSignatureVerifier ::
  "('c, 'i, 'o) env \<Rightarrow> bytes \<Rightarrow> string \<Rightarrow> string option \<Rightarrow> AnnotationConfig
    \<Rightarrow> SignatureVerifier" where
  "NewSignatureVerifier env objYAMLBytes sigRef pubkeyPath cfg =
     (let resourceRef0 = (if HasPrefix sigRef InClusterObjectPrefix then sigRef else []);
          imageRef0 = (if HasPrefix sigRef InClusterObjectPrefix then []
                       else if sigRef \<noteq> [] then sigRef else []);
          imageRefAnnotationKey = ImageRefAnnotationKey cfg;
          annos = GetAnnotationsInYAML env objYAMLBytes;
          imageRef1 = (if imageRef0 = [] then
                         (case annos imageRefAnnotationKey of
                            Some annoImageRef \<Rightarrow> annoImageRef
                          | None \<Rightarrow> imageRef0)
                       else imageRef0);
          pubkeyPathString0 = (case pubkeyPath of
                                 None \<Rightarrow> None
                               | Some p \<Rightarrow> if p \<noteq> [] then pubkeyPath else None)
      in if imageRef1 \<noteq> [] \<and> imageRef1 \<noteq> SigRefEmbeddedInAnnotation then
           ImageVerifier \<lparr>imageRef = imageRef1, pubkeyPathString = pubkeyPathString0,
             onMemoryCacheEnabled = True, annotationConfig = cfg\<rparr>
         else
           BlobVerifier \<lparr>annotations = annos, resourceRef = resourceRef0,
             blobPubkeyPathString = pubkeyPathString0, blobAnnotationConfig = cfg\<rparr>)"

section \<open>ImageManifestFetcher\<close>

text \<open>The field \<open>AnnotationConfig\<close> is \<open>fetcherAnnotationConfig\<close> here.\<close>

record ImageManifestFetcher =
  imageRefString :: string
  fetcherAnnotationConfig :: AnnotationConfig
  ignoreFields :: "string list"
  maxResourceManifestNum :: "64 word"
  cacheEnabled :: bool

definition fetchManifestCacheKey :: "string \<Rightarrow> string" where
  "fetchManifestCacheKey ref = ''cache/fetch-manifest/'' @ ref"

text \<open>\<open>getConcatYAMLFromImageRef\<close>: on an error the bytes it returns are \<open>nil\<close>.\<close>

definition getConcatYAMLFromImageRef ::
  "('c, 'i, 'o) env \<Rightarrow> string \<Rightarrow> (ImageManifestFetcher, 'c) state
    \<Rightarrow> (string + bytes) \<times> (ImageManifestFetcher, 'c) state" where
  "getConcatYAMLFromImageRef env ref s =
     (let s1 = s\<lparr>trace := trace s @ [EvPullImage ref]\<rparr> in
      case PullImage env ref of
        Inl e \<Rightarrow> (Inl e, s1)
      | Inr img \<Rightarrow>
          (case GenerateConcatYAMLsFromImage env img of
             Inl e \<Rightarrow> (Inl e, s1)
           | Inr concatYAMLbytes \<Rightarrow> (Inr concatYAMLbytes, s1)))"

text \<open>The read of \<open>result[0]\<close> in \<open>getManifestFromCache\<close>: bytes, or else a string
  that is base64-decoded, the bytes staying \<open>nil\<close> when the decoding fails.\<close>

definition assertManifestBytes :: "('c, 'i, 'o) env \<Rightarrow> cache_val \<Rightarrow> bytes exec" where
  "assertManifestBytes env x =
     (case x of
        VNil \<Rightarrow> Done None
      | VBytes b \<Rightarrow> Done b
      | VString concatYAMLStr \<Rightarrow>
          (case base64_DecodeString env concatYAMLStr of
             Inr tmpYAMLbytes \<Rightarrow> Done (Some tmpYAMLbytes)
           | Inl e \<Rightarrow> Done None)
      | _ \<Rightarrow> Panic)"

text \<open>\<open>getManifestFromCache\<close> returns \<open>(cacheFound, concatYAMLbytes, err)\<close>.\<close>

definition getManifestFromCache ::
  "('c, 'i, 'o) env \<Rightarrow> (ImageManifestFetcher, 'c) state \<Rightarrow> string
    \<Rightarrow> (bool \<times> bytes \<times> error) exec" where
  "getManifestFromCache env s ref =
     (let key = fetchManifestCacheKey ref;
          resultNum = 2;
          (result, err) = GetCache env (cache s) key
      in if err \<noteq> None then Done (False, None, None)
         else if length result \<noteq> resultNum then
           Done (False, None,
             Some (''cache returns inconsistent data: a length of fetch manifest result must be ''
                   @ itoa resultNum @ '', but got '' @ itoa (length result)))
         else
           (case assertManifestBytes env (result ! 0) of Panic \<Rightarrow> Panic | Done concatYAMLbytes \<Rightarrow>
            (case assertError (result ! 1) of Panic \<Rightarrow> Panic | Done err' \<Rightarrow>
               Done (True, concatYAMLbytes, err'))))"

definition setManifestToCache ::
  "('c, 'i, 'o) env \<Rightarrow> string \<Rightarrow> bytes \<Rightarrow> error
    \<Rightarrow> (ImageManifestFetcher, 'c) state \<Rightarrow> (ImageManifestFetcher, 'c) state" where
  "setManifestToCache env ref concatYAMLbytes err s =
     (let key = fetchManifestCacheKey ref;
          vals = [VBytes concatYAMLbytes, ifaceOfError err];
          (c', setErr) = SetCache env (cache s) key vals
      in s\<lparr>cache := c', trace := trace s @ [EvSetCache key vals]\<rparr>)"

text \<open>The last lines of \<open>fetchManifestInSingleImage\<close>, on \<open>concatYAMLbytes\<close> and \<open>err\<close>.\<close>

definition wrapImageYAMLs :: "bytes \<Rightarrow> error \<Rightarrow> string + bytes" where
  "wrapImageYAMLs concatYAMLbytes err =
     (case err of
        Some e \<Rightarrow> Inl (Wrap e ''failed to get YAMLs in the image'')
      | None \<Rightarrow> Inr concatYAMLbytes)"

text \<open>The live fetch of \<open>fetchManifestInSingleImage\<close>, with or without the write to the
  cache that follows a fetch without error.\<close>

definition fetchLive ::
  "('c, 'i, 'o) env \<Rightarrow> bool \<Rightarrow> string \<Rightarrow> (ImageManifestFetcher, 'c) state
    \<Rightarrow> (string + bytes) \<times> (ImageManifestFetcher, 'c) state" where
  "fetchLive env withCache ref s =
     (case getConcatYAMLFromImageRef env ref s of
        (Inl e, s1) \<Rightarrow> (wrapImageYAMLs None (Some e), s1)
      | (Inr concatYAMLbytes, s1) \<Rightarrow>
          (wrapImageYAMLs concatYAMLbytes None,
           if withCache then setManifestToCache env ref concatYAMLbytes None s1 else s1))"

definition fetchManifestInSingleImage ::
  "('c, 'i, 'o) env \<Rightarrow> string \<Rightarrow> (ImageManifestFetcher, 'c) state
    \<Rightarrow> (string + bytes) exec \<times> (ImageManifestFetcher, 'c) state" where
  "fetchManifestInSingleImage env singleImageRef s =
     (if cacheEnabled (self s) then
        (case getManifestFromCache env s singleImageRef of
           Panic \<Rightarrow> (Panic, s)
         | Done (cacheFound, concatYAMLbytes, err) \<Rightarrow>
             if \<not> cacheFound then
               (case fetchLive env True singleImageRef s of (r, s') \<Rightarrow> (Done r, s'))
             else (Done (wrapImageYAMLs concatYAMLbytes err), s))
      else
        (case fetchLive env False singleImageRef s of (r, s') \<Rightarrow> (Done r, s')))"

text \<open>\<open>maxResourceManifestNumPtr\<close>: the address of the field when it is positive
  (a Go \<open>int\<close>, signed), else \<open>nil\<close>.\<close>

definition maxNumPtr :: "64 word \<Rightarrow> 64 word option" where
  "maxNumPtr n = (if 0 < sint n then Some n else None)"

text \<open>The loop of \<open>Fetch\<close> over the image references.\<close>

fun imageFetchLoop ::
  "('c, 'i, 'o) env \<Rightarrow> bytes \<Rightarrow> 64 word option \<Rightarrow> string list
    \<Rightarrow> (ImageManifestFetcher, 'c) state \<Rightarrow> fetched exec \<times> (ImageManifestFetcher, 'c) state" where
  "imageFetchLoop env objYAMLBytes maxPtr [] s =
     (Done (None, [], Some ''failed to find a YAML manifest in the image''), s)"
| "imageFetchLoop env objYAMLBytes maxPtr (ref # refs) s =
     (case fetchManifestInSingleImage env ref s of
        (Panic, s') \<Rightarrow> (Panic, s')
      | (Done (Inl e), s') \<Rightarrow> (Done (None, [], Some e), s')
      | (Done (Inr concatYAMLbytes), s') \<Rightarrow>
          (let (found, resourceManifests) =
                 FindManifestYAML env concatYAMLbytes objYAMLBytes maxPtr (ignoreFields (self s'))
           in if found then (Done (resourceManifests, ref, None), s')
              else imageFetchLoop env objYAMLBytes maxPtr refs s'))"

definition ImageManifestFetcher_Fetch ::
  "('c, 'i, 'o) env \<Rightarrow> bytes \<Rightarrow> (ImageManifestFetcher, 'c) state
    \<Rightarrow> fetched exec \<times> (ImageManifestFetcher, 'c) state" where
  "ImageManifestFetcher_Fetch env objYAMLBytes s =
     (let f = self s;
          imageRefAnnotationKey = ImageRefAnnotationKey (fetcherAnnotationConfig f);
          imageRefString1 =
            (if imageRefString f = [] then
               (case GetAnnotationsInYAML env objYAMLBytes imageRefAnnotationKey of
                  Some annoImageRef \<Rightarrow> annoImageRef
                | None \<Rightarrow> imageRefString f)
             else imageRefString f)
      in if imageRefString1 = [] then (Done (None, [], Some ''no image reference is found''), s)
         else imageFetchLoop env objYAMLBytes (maxNumPtr (maxResourceManifestNum f))
                (SplitCommaSeparatedString env imageRefString1) s)"

text \<open>The loop of \<open>FetchAll\<close>.\<close>

fun fetchAllLoop ::
  "('c, 'i, 'o) env \<Rightarrow> string list \<Rightarrow> bytes list
    \<Rightarrow> (ImageManifestFetcher, 'c) state
    \<Rightarrow> (bytes list option \<times> error) exec \<times> (ImageManifestFetcher, 'c) state" where
  "fetchAllLoop env [] yamls s = (Done (Some yamls, None), s)"
| "fetchAllLoop env (ref # refs) yamls s =
     (case fetchManifestInSingleImage env ref s of
        (Panic, s') \<Rightarrow> (Panic, s')
      | (Done (Inl e), s') \<Rightarrow> (Done (None, Some e), s')
      | (Done (Inr concatYAMLbytes), s') \<Rightarrow>
          fetchAllLoop env refs (yamls @ SplitConcatYAMLs env concatYAMLbytes) s')"

definition ImageManifestFetcher_FetchAll ::
  "('c, 'i, 'o) env \<Rightarrow> (ImageManifestFetcher, 'c) state
    \<Rightarrow> (bytes list option \<times> error) exec \<times> (ImageManifestFetcher, 'c) state" where
  "ImageManifestFetcher_FetchAll env s =
     fetchAllLoop env (SplitCommaSeparatedString env (imageRefString (self s))) [] s"

section \<open>BlobManifestFetcher\<close>

text \<open>The fields carry the prefix \<open>blob\<close> where the record above has taken the name.\<close>

record BlobManifestFetcher =
  blobFetcherAnnotationConfig :: AnnotationConfig
  resourceRefString :: string
  blobIgnoreFields :: "string list"
  blobMaxResourceManifestNum :: "64 word"

text \<open>What both paths do with a base64 message: decode it, decompress it, read the YAMLs
  of the archive and concatenate them. \<open>where\<close> ends the message of a decoding error.\<close>

definition decodeMessage :: "('c, 'i, 'o) env \<Rightarrow> string \<Rightarrow> string \<Rightarrow> string + bytes" where
  "decodeMessage env base64Msg place =
     (case base64_DecodeString env base64Msg of
        Inl e \<Rightarrow> Inl (Wrap e (''failed to decode base64 message in the '' @ place))
      | Inr gzipMsg \<Rightarrow>
          (let gzipTarBall = GzipDecompress env (Some gzipMsg) in
           case GetYAMLsInArtifact env gzipTarBall of
             Inl e \<Rightarrow> Inl (Wrap e ''failed to read YAMLs in the gzipped message'')
           | Inr yamls \<Rightarrow> Inr (ConcatenateYAMLs env yamls)))"

definition fetchManifestInSingleConfigMap ::
  "('c, 'i, 'o) env \<Rightarrow> string \<Rightarrow> (string + bytes) exec" where
  "fetchManifestInSingleConfigMap env singleCMRef =
     (case GetConfigMapFromK8sObjectRef env singleCMRef of
        Inl e \<Rightarrow> Done (Inl (Wrap e ''failed to get a configmap''))
      | Inr None \<Rightarrow> Panic
      | Inr (Some cm) \<Rightarrow>
          (case Data cm (MessageAnnotationBaseName env) of
             None \<Rightarrow> Done (Inl (''failed to find `'' @ MessageAnnotationBaseName env
                                 @ ''` in a configmap '' @ GetName cm))
           | Some base64Msg \<Rightarrow> Done (decodeMessage env base64Msg ''configmap'')))"

text \<open>The loop of \<open>fetchManifestFromResource\<close> over the resource references.\<close>

fun resourceFetchLoop ::
  "('c, 'i, 'o) env \<Rightarrow> bytes \<Rightarrow> 64 word option \<Rightarrow> string list \<Rightarrow> string list
    \<Rightarrow> fetched exec" where
  "resourceFetchLoop env objYAMLBytes maxPtr ign [] =
     Done (None, [], Some ''failed to find a YAML manifest in the specified signature configmaps'')"
| "resourceFetchLoop env objYAMLBytes maxPtr ign (ref # refs) =
     (case fetchManifestInSingleConfigMap env ref of
        Panic \<Rightarrow> Panic
      | Done (Inl e) \<Rightarrow> Done (None, [], Some e)
      | Done (Inr concatYAMLbytes) \<Rightarrow>
          (let (found, resourceManifests) =
                 FindManifestYAML env concatYAMLbytes objYAMLBytes maxPtr ign
           in if found then Done (resourceManifests, ref, None)
              else resourceFetchLoop env objYAMLBytes maxPtr ign refs))"

definition fetchManifestFromResource ::
  "('c, 'i, 'o) env \<Rightarrow> bytes \<Rightarrow> (BlobManifestFetcher, 'c) state
    \<Rightarrow> fetched exec \<times> (BlobManifestFetcher, 'c) state" where
  "fetchManifestFromResource env objYAMLBytes s =
     (let f = self s in
      if resourceRefString f = [] then
        (Done (None, [], Some ''no signature resource reference is specified''), s)
      else
        (resourceFetchLoop env objYAMLBytes (maxNumPtr (blobMaxResourceManifestNum f))
           (blobIgnoreFields f) (SplitCommaSeparatedString env (resourceRefString f)), s))"

definition BlobManifestFetcher_Fetch ::
  "('c, 'i, 'o) env \<Rightarrow> bytes \<Rightarrow> (BlobManifestFetcher, 'c) state
    \<Rightarrow> fetched exec \<times> (BlobManifestFetcher, 'c) state" where
  "BlobManifestFetcher_Fetch env objYAMLBytes s =
     (let f = self s in
      if resourceRefString f \<noteq> [] then fetchManifestFromResource env objYAMLBytes s
      else
        (let annos = GetAnnotationsInYAML env objYAMLBytes;
             messageAnnotationKey = MessageAnnotationKey (blobFetcherAnnotationConfig f)
         in case annos messageAnnotationKey of
              None \<Rightarrow> (Done (None, [], None), s)
            | Some base64Msg \<Rightarrow>
                (case decodeMessage env base64Msg ''annotation'' of
                   Inl e \<Rightarrow> (Done (None, [], Some e), s)
                 | Inr concatYAMLbytes \<Rightarrow>
                     (let (found, resourceManifests) =
                            FindManifestYAML env concatYAMLbytes objYAMLBytes
                              (maxNumPtr (blobMaxResourceManifestNum f)) (blobIgnoreFields f)
                      in if \<not> found then
                           (Done (None, [],
                              Some ''failed to find a YAML manifest in the gzipped message''), s)
                         else (Done (resourceManifests, SigRefEmbeddedInAnnotation, None), s)))))"

section \<open>NewManifestFetcher\<close>

datatype ManifestFetcher =
    ImageFetcher ImageManifestFetcher
  | BlobFetcher BlobManifestFetcher

definition NewManifestFetcher ::
  "string \<Rightarrow> string \<Rightarrow> AnnotationConfig \<Rightarrow> string list \<Rightarrow> 64 word \<Rightarrow> ManifestFetcher" where
  "NewManifestFetcher imageRef0 resourceRef0 cfg ign maxNum =
     (if imageRef0 \<noteq> [] then
        ImageFetcher \<lparr>imageRefString = imageRef0, fetcherAnnotationConfig = cfg,
          ignoreFields = ign, maxResourceManifestNum = maxNum, cacheEnabled = True\<rparr>
      else
        BlobFetcher \<lparr>blobFetcherAnnotationConfig = cfg, resourceRefString = resourceRef0,
          blobIgnoreFields = ign, blobMaxResourceManifestNum = maxNum\<rparr>)"

section \<open>What a run of \<open>Verify\<close> is observed by\<close>

text \<open>
  The keys the live loop attempts: those before the first key that verifies, and that key.
  \<open>liveAttempt\<close> is what one attempt adds to the trace, \<open>afterAttempt\<close> the state after
  it, \<open>reasons\<close> the messages of the errors that are not \<open>nil\<close>, \<open>applySets\<close> the cache
  after the writes of a trace, \<open>verifyCalls\<close> the calls of \<open>VerifyImage\<close> in a trace.
\<close>

definition attemptedKeys :: "('c, 'i, 'o) env \<Rightarrow> string \<Rightarrow> string list \<Rightarrow> string list" where
  "attemptedKeys env ref keys =
     takeWhile (\<lambda>k. \<not> fst (VerifyImage env ref k)) keys
     @ take 1 (dropWhile (\<lambda>k. \<not> fst (VerifyImage env ref k)) keys)"

definition liveAttempt :: "('c, 'i, 'o) env \<Rightarrow> string \<Rightarrow> bool \<Rightarrow> string \<Rightarrow> event list" where
  "liveAttempt env ref cacheOn k =
     (case VerifyImage env ref k of (verified, signerName, signedTimestamp, err) \<Rightarrow>
        EvVerifyImage ref k #
        (if cacheOn then
           [EvSetCache (verifyImageCacheKey ref k)
              [VBool verified, VString signerName, VInt64Ptr signedTimestamp, ifaceOfError err]]
         else []))"

definition afterAttempt ::
  "('c, 'i, 'o) env \<Rightarrow> string \<Rightarrow> string \<Rightarrow> (ImageSignatureVerifier, 'c) state
    \<Rightarrow> (ImageSignatureVerifier, 'c) state" where
  "afterAttempt env ref k s =
     (let s1 = s\<lparr>trace := trace s @ [EvVerifyImage ref k]\<rparr>
      in if onMemoryCacheEnabled (self s1)
         then setResultToCache env ref k (VerifyImage env ref k) s1 else s1)"

primrec reasons :: "error list \<Rightarrow> string list" where
  "reasons [] = []"
| "reasons (e # es) = (case e of None \<Rightarrow> reasons es | Some m \<Rightarrow> m # reasons es)"

definition liveErr :: "('c, 'i, 'o) env \<Rightarrow> string \<Rightarrow> string \<Rightarrow> error" where
  "liveErr env ref k = snd (snd (snd (VerifyImage env ref k)))"

fun applySets :: "('c, 'i, 'o) env \<Rightarrow> event list \<Rightarrow> 'c \<Rightarrow> 'c" where
  "applySets env [] c = c"
| "applySets env (EvSetCache key vals # evs) c = applySets env evs (fst (SetCache env c key vals))"
| "applySets env (ev # evs) c = applySets env evs c"

fun verifyCalls :: "event list \<Rightarrow> (string \<times> string) list" where
  "verifyCalls [] = []"
| "verifyCalls (EvVerifyImage ref k # evs) = (ref, k) # verifyCalls evs"
| "verifyCalls (ev # evs) = verifyCalls evs"

text \<open>The state after the image references \<open>refs\<close> have been fetched one after the
  other, each without an error and without a match; \<open>None\<close> when one of them fails,
  panics or matches.\<close>

fun imageRefsSkipped ::
  "('c, 'i, 'o) env \<Rightarrow> bytes \<Rightarrow> 64 word option \<Rightarrow> string list
    \<Rightarrow> (ImageManifestFetcher, 'c) state \<Rightarrow> (ImageManifestFetcher, 'c) state option" where
  "imageRefsSkipped env objYAMLBytes maxPtr [] s = Some s"
| "imageRefsSkipped env objYAMLBytes maxPtr (ref # refs) s =
     (case fetchManifestInSingleImage env ref s of
        (Done (Inr concatYAMLbytes), s') \<Rightarrow>
          if fst (FindManifestYAML env concatYAMLbytes objYAMLBytes maxPtr (ignoreFields (self s')))
          then None
          else imageRefsSkipped env objYAMLBytes maxPtr refs s'
      | _ \<Rightarrow> None)"

text \<open>A call changes neither the receiver nor the calls made before it, and the cache
  it leaves is the cache it found with the writes it made.\<close>

definition onlyCacheIO :: "('c, 'i, 'o) env \<Rightarrow> ('r, 'c) state \<Rightarrow> ('r, 'c) state \<Rightarrow> bool" where
  "onlyCacheIO env s s' =
     (self s' = self s
      \<and> take (length (trace s)) (trace s') = trace s
      \<and> cache s' = applySets env (drop (length (trace s)) (trace s')) (cache s))"

text \<open>The bytes \<open>[]byte(str)\<close> stored for a string that is not empty, \<open>nil\<close> for the empty
  string.\<close>

definition bytesOf :: "string \<Rightarrow> bytes" where
  "bytesOf str = (if str = [] then None else Some str)"

text \<open>The result of \<open>Verify\<close> once the bundle is assembled: the dispatch on the signature type.\<close>

definition dispatched ::
  "('c, 'i, 'o) env \<Rightarrow> string option \<Rightarrow> bytes \<Rightarrow> bytes \<Rightarrow> bytes \<Rightarrow> bytes \<Rightarrow> outcome" where
  "dispatched env p msgBytes sigBytes certBytes bundleBytes =
     (case GetSignatureTypeFromPublicKey env p of
        SigTypeUnknown \<Rightarrow>
          (False, [], None, Some ''failed to judge signature type from public key configuration'')
      | SigTypeCosign \<Rightarrow> cosign_VerifyBlob env msgBytes sigBytes certBytes bundleBytes p
      | SigTypePGP \<Rightarrow> pgp_VerifyBlob env msgBytes sigBytes p
      | SigTypeX509 \<Rightarrow> x509_VerifyBlob env msgBytes sigBytes certBytes p
      | SigTypeOther \<Rightarrow> (False, [], None, Some ''unknown error''))"

section \<open>A concrete environment\<close>

text \<open>Modelled from the spec: the cache behind \<open>GetCache\<close> and \<open>SetCache\<close> is outside
  \<open>src/\<close>; the spec has it store and return tuples verbatim under a string key, a read of
  an absent key being a miss.\<close>

definition mapGetCache :: "(string \<rightharpoonup> cache_val list) \<Rightarrow> string \<Rightarrow> cache_val list \<times> error" where
  "mapGetCache c key = (case c key of None \<Rightarrow> ([], Some ''not found'') | Some vals \<Rightarrow> (vals, None))"

definition mapSetCache ::
  "(string \<rightharpoonup> cache_val list) \<Rightarrow> string \<Rightarrow> cache_val list
    \<Rightarrow> (string \<rightharpoonup> cache_val list) \<times> error" where
  "mapSetCache c key vals = (c(key \<mapsto> vals), None)"

text \<open>Modelled from the spec: \<open>SplitCommaSeparatedString\<close> is outside \<open>src/\<close>; the spec has
  it split a string on commas into an ordered list.\<close>

fun splitComma :: "string \<Rightarrow> string list" where
  "splitComma [] = [[]]"
| "splitComma (c # cs) =
     (if c = CHR '','' then [] # splitComma cs
      else (case splitComma cs of [] \<Rightarrow> [[c]] | x # xs \<Rightarrow> (c # x) # xs))"

definition sampleConfig :: AnnotationConfig where
  "sampleConfig = \<lparr>ImageRefAnnotationKey = ''imageRef'', MessageAnnotationKey = ''message'',
     SignatureAnnotationKey = ''signature'', CertificateAnnotationKey = ''certificate'',
     BundleAnnotationKey = ''bundle''\<rparr>"

definition sampleConfigMap :: ConfigMap where
  "sampleConfigMap = \<lparr>GetName = ''sig-cm'', Data = [''message'' \<mapsto> [], ''signature'' \<mapsto> ''c2ln'']\<rparr>"

text \<open>
  An environment to run the code in. The object \<open>annotated\<close> carries an image-reference
  annotation, the object \<open>blank\<close> a signature and an empty message; the key \<open>k2\<close> alone
  verifies an image; the image \<open>bad\<close> cannot be pulled; a manifest matches an object
  when they are equal; the only config map is \<open>sig-cm\<close>.
\<close>

definition sampleEnv :: "(string \<rightharpoonup> cache_val list, string, string) env" where
  "sampleEnv = \<lparr>
     MessageAnnotationBaseName = ''message'',
     SignatureAnnotationBaseName = ''signature'',
     CertificateAnnotationBaseName = ''certificate'',
     BundleAnnotationBaseName = ''bundle'',
     GetAnnotationsInYAML = (\<lambda>b.
       if b = Some ''annotated'' then [''imageRef'' \<mapsto> ''repo/app:v1'']
       else if b = Some ''blank'' then [''message'' \<mapsto> [], ''signature'' \<mapsto> ''c2ln'']
       else Map.empty),
     SplitCommaSeparatedString = splitComma,
     GetCache = mapGetCache,
     SetCache = mapSetCache,
     VerifyImage = (\<lambda>ref key.
       if key = ''k2'' then (True, ''alice'', Some 1650000000, None)
       else (False, [], None, Some (''no match: '' @ key))),
     GetSignatureTypeFromPublicKey = (\<lambda>p. case p of None \<Rightarrow> SigTypeCosign | Some k \<Rightarrow> SigTypePGP),
     cosign_VerifyBlob = (\<lambda>msg sig cert bundle p.
       if msg = None then (False, [], None, Some ''no message'') else (True, ''alice'', None, None)),
     pgp_VerifyBlob = (\<lambda>msg sig p.
       if msg = None then (False, [], None, Some ''no message'') else (True, ''bob'', None, None)),
     x509_VerifyBlob = (\<lambda>msg sig cert p.
       if msg = None then (False, [], None, Some ''no message'') else (True, ''carol'', None, None)),
     PullImage = (\<lambda>ref. if ref = ''bad'' then Inl ''pull failed'' else Inr ref),
     GenerateConcatYAMLsFromImage = (\<lambda>img. Inr (Some img)),
     SplitConcatYAMLs = (\<lambda>b. [b]),
     FindManifestYAML = (\<lambda>hay needle maxNum ign.
       if hay = needle then (True, Some [hay]) else (False, None)),
     base64_DecodeString = (\<lambda>str. Inr str),
     GzipDecompress = (\<lambda>b. b),
     GetYAMLsInArtifact = (\<lambda>b. Inr [b]),
     ConcatenateYAMLs = (\<lambda>ys. case ys of [] \<Rightarrow> None | y # rest \<Rightarrow> y),
     parseObjectInCluster = (\<lambda>r.
       if HasPrefix r InClusterObjectPrefix then (''cm'', ''ns1'', drop 6 r, None)
       else ([], [], [], Some ''not a reference'')),
     GetResource = (\<lambda>api kind ns name. if name = ''sig-cm'' then Inr name else Inl ''not found''),
     json_Marshal = (\<lambda>obj. Inr obj),
     json_Unmarshal = (\<lambda>doc. if doc = ''sig-cm'' then Inr (Some sampleConfigMap) else Inr None)
   \<rparr>"

definition sampleImageVerifier :: "string option \<Rightarrow> ImageSignatureVerifier" where
  "sampleImageVerifier keys = \<lparr>imageRef = ''img'', pubkeyPathString = keys,
     onMemoryCacheEnabled = True, annotationConfig = sampleConfig\<rparr>"

definition sampleImageFetcher :: "string \<Rightarrow> ImageManifestFetcher" where
  "sampleImageFetcher refs = \<lparr>imageRefString = refs, fetcherAnnotationConfig = sampleConfig,
     ignoreFields = [], maxResourceManifestNum = 0, cacheEnabled = True\<rparr>"

definition sampleBlobFetcher :: "string \<Rightarrow> BlobManifestFetcher" where
  "sampleBlobFetcher refs = \<lparr>blobFetcherAnnotationConfig = sampleConfig,
     resourceRefString = refs, blobIgnoreFields = [], blobMaxResourceManifestNum = 0\<rparr>"

text \<open>A blob verifier built for the object \<open>blank\<close>.\<close>

definition sampleBlobVerifier :: "string \<Rightarrow> BlobSignatureVerifier" where
  "sampleBlobVerifier ref = \<lparr>annotations = GetAnnotationsInYAML sampleEnv (Some ''blank''),
     resourceRef = ref, blobPubkeyPathString = None, blobAnnotationConfig = sampleConfig\<rparr>"

text \<open>Caches: one with a verified result for the key \<open>k2\<close>, one with failed results for
  \<open>k1\<close> and \<open>k3\<close>, one with a failed result for \<open>k3\<close> only.\<close>

definition cacheVerifiedK2 :: "string \<rightharpoonup> cache_val list" where
  "cacheVerifiedK2 =
     [''cache/verify-image/img/k2'' \<mapsto> [VBool True, VString ''alice'', VInt64Ptr None, VNil]]"

definition cacheFailedK1K3 :: "string \<rightharpoonup> cache_val list" where
  "cacheFailedK1K3 =
     [''cache/verify-image/img/k1'' \<mapsto> [VBool False, VString [], VInt64Ptr None, VError ''old: k1''],
      ''cache/verify-image/img/k3'' \<mapsto> [VBool False, VString [], VInt64Ptr None, VError ''old: k3'']]"

definition cacheFailedK3 :: "string \<rightharpoonup> cache_val list" where
  "cacheFailedK3 =
     [''cache/verify-image/img/k3'' \<mapsto> [VBool False, VString [], VInt64Ptr None, VError ''old: k3'']]"

text \<open>Caches that disagree with live verification: a failed result for the key \<open>k2\<close>,
  which verifies live, and a verified result for the key \<open>k3\<close>, which does not.\<close>

definition cacheStaleK2 :: "string \<rightharpoonup> cache_val list" where
  "cacheStaleK2 =
     [''cache/verify-image/img/k2'' \<mapsto> [VBool False, VString [], VInt64Ptr None, VError ''stale: k2'']]"

definition cacheVerifiedK3 :: "string \<rightharpoonup> cache_val list" where
  "cacheVerifiedK3 =
     [''cache/verify-image/img/k3'' \<mapsto> [VBool True, VString ''carol'', VInt64Ptr None, VNil]]"

text \<open>The state of a receiver before any call, on a given cache.\<close>

definition initState :: "'r \<Rightarrow> 'c \<Rightarrow> ('r, 'c) state" where
  "initState r c = \<lparr>self = r, cache = c, trace = []\<rparr>"

section \<open>The live loop of \<open>Verify\<close>\<close>

lemma applySets_append: "applySets env (xs @ ys) c = applySets env ys (applySets env xs c)"
  by (induction env xs c rule: applySets.induct) simp_all

lemma verifyCalls_append: "verifyCalls (xs @ ys) = verifyCalls xs @ verifyCalls ys"
  by (induction xs rule: verifyCalls.induct) simp_all

lemma setResultToCache_self: "self (setResultToCache env ref k r s) = self s"
  by (simp add: setResultToCache_def Let_def split: prod.splits)

lemma setResultToCache_trace:
  "trace (setResultToCache env ref k (v, sg, ts, e) s) =
     trace s @ [EvSetCache (verifyImageCacheKey ref k) [VBool v, VString sg, VInt64Ptr ts, ifaceOfError e]]"
  by (simp add: setResultToCache_def Let_def split: prod.splits)

lemma setResultToCache_cache:
  "cache (setResultToCache env ref k (v, sg, ts, e) s) =
     fst (SetCache env (cache s) (verifyImageCacheKey ref k) [VBool v, VString sg, VInt64Ptr ts, ifaceOfError e])"
  by (simp add: setResultToCache_def Let_def split: prod.splits)

lemma verifyLiveLoop_verified:
  "fst (VerifyImage env ref k) \<Longrightarrow>
   verifyLiveLoop env ref (k # keys) errs s = (VerifyImage env ref k, afterAttempt env ref k s)"
  by (cases "VerifyImage env ref k") (simp add: afterAttempt_def Let_def)

lemma verifyLiveLoop_failed:
  "\<not> fst (VerifyImage env ref k) \<Longrightarrow>
   verifyLiveLoop env ref (k # keys) errs s =
     verifyLiveLoop env ref keys (appendErr errs (snd (snd (snd (VerifyImage env ref k)))))
       (afterAttempt env ref k s)"
  by (cases "VerifyImage env ref k") (simp add: afterAttempt_def Let_def)

declare verifyLiveLoop.simps(2) [simp del]

lemma afterAttempt_self: "self (afterAttempt env ref k s) = self s"
  by (simp add: afterAttempt_def Let_def setResultToCache_self)

lemma afterAttempt_trace:
  "trace (afterAttempt env ref k s) =
     trace s @ liveAttempt env ref (onMemoryCacheEnabled (self s)) k"
  by (cases "VerifyImage env ref k")
     (simp add: afterAttempt_def Let_def liveAttempt_def setResultToCache_trace)

lemma afterAttempt_cache:
  "cache (afterAttempt env ref k s) =
     applySets env (liveAttempt env ref (onMemoryCacheEnabled (self s)) k) (cache s)"
  by (cases "VerifyImage env ref k")
     (simp add: afterAttempt_def Let_def liveAttempt_def setResultToCache_cache)

lemma verifyLiveLoop_self: "self (snd (verifyLiveLoop env ref keys errs s)) = self s"
proof (induction keys arbitrary: errs s)
  case Nil
  show ?case by simp
next
  case (Cons k keys)
  show ?case
    by (cases "fst (VerifyImage env ref k)")
       (simp_all add: verifyLiveLoop_verified verifyLiveLoop_failed Cons.IH afterAttempt_self)
qed

lemma verifyLiveLoop_all_fail:
  "\<forall>k\<in>set keys. \<not> fst (VerifyImage env ref k) \<Longrightarrow>
   fst (verifyLiveLoop env ref keys errs s) =
     (False, [], None, Some (''signature verification failed: ''
        @ Join (foldl appendErr errs (map (\<lambda>k. snd (snd (snd (VerifyImage env ref k)))) keys)) ''; ''))"
  by (induction keys arbitrary: errs s) (simp_all add: verifyLiveLoop_failed)

lemma verifyLiveLoop_first_success:
  "\<forall>p\<in>set pre. \<not> fst (VerifyImage env ref p) \<Longrightarrow> fst (VerifyImage env ref k) \<Longrightarrow>
   fst (verifyLiveLoop env ref (pre @ k # post) errs s) = VerifyImage env ref k"
  by (induction pre arbitrary: errs s)
     (simp_all add: verifyLiveLoop_failed verifyLiveLoop_verified)

lemma attemptedKeys_Nil: "attemptedKeys env ref [] = []"
  by (simp add: attemptedKeys_def)

lemma attemptedKeys_verified:
  "fst (VerifyImage env ref k) \<Longrightarrow> attemptedKeys env ref (k # keys) = [k]"
  by (simp add: attemptedKeys_def)

lemma attemptedKeys_failed:
  "\<not> fst (VerifyImage env ref k) \<Longrightarrow>
   attemptedKeys env ref (k # keys) = k # attemptedKeys env ref keys"
  by (simp add: attemptedKeys_def)

lemma attemptedKeys_first_success:
  "\<forall>p\<in>set pre. \<not> fst (VerifyImage env ref p) \<Longrightarrow> fst (VerifyImage env ref k) \<Longrightarrow>
   attemptedKeys env ref (pre @ k # post) = pre @ [k]"
  by (induction pre) (simp_all add: attemptedKeys_failed attemptedKeys_verified)

lemma attemptedKeys_all_fail:
  "\<forall>k\<in>set keys. \<not> fst (VerifyImage env ref k) \<Longrightarrow> attemptedKeys env ref keys = keys"
  by (induction keys) (simp_all add: attemptedKeys_failed attemptedKeys_Nil)

lemma verifyLiveLoop_trace:
  "trace (snd (verifyLiveLoop env ref keys errs s)) =
     trace s @ concat (map (liveAttempt env ref (onMemoryCacheEnabled (self s)))
                          (attemptedKeys env ref keys))"
proof (induction keys arbitrary: errs s)
  case Nil
  show ?case by (simp add: attemptedKeys_Nil)
next
  case (Cons k keys)
  show ?case
    by (cases "fst (VerifyImage env ref k)")
       (simp_all add: verifyLiveLoop_verified verifyLiveLoop_failed Cons.IH afterAttempt_self
          afterAttempt_trace attemptedKeys_verified attemptedKeys_failed)
qed

lemma verifyLiveLoop_cache:
  "cache (snd (verifyLiveLoop env ref keys errs s)) =
     applySets env (concat (map (liveAttempt env ref (onMemoryCacheEnabled (self s)))
                               (attemptedKeys env ref keys))) (cache s)"
proof (induction keys arbitrary: errs s)
  case Nil
  show ?case by (simp add: attemptedKeys_Nil)
next
  case (Cons k keys)
  show ?case
    by (cases "fst (VerifyImage env ref k)")
       (simp_all add: verifyLiveLoop_verified verifyLiveLoop_failed Cons.IH afterAttempt_self
          afterAttempt_cache attemptedKeys_verified attemptedKeys_failed applySets_append)
qed

lemma length_filter_all: "(length (filter P xs) = length xs) = (\<forall>x\<in>set xs. P x)"
  by (metis filter_id_conv length_filter_less less_irrefl_nat)

lemma verifyCacheLoop_return:
  assumes "\<forall>p\<in>set pre. getResultFromCache env s ref p = Done (hit p, False, csig p, cts p, cerr p)"
    and "getResultFromCache env s ref k = Done (True, True, sg, ts, e)"
  shows "verifyCacheLoop env s ref (pre @ k # post) v c errs = Done (CacheReturn (True, sg, ts, e))"
  using assms by (induction pre arbitrary: v c errs) simp_all

lemma verifyCacheLoop_end:
  assumes "\<forall>k\<in>set keys. getResultFromCache env s ref k = Done (hit k, False, csig k, cts k, cerr k)"
  shows "verifyCacheLoop env s ref keys v c errs =
           Done (CacheEnd (if keys = [] then v else False) (c + length (filter hit keys))
                   (foldl appendErr errs (map cerr keys)))"
  using assms by (induction keys arbitrary: v c errs) simp_all


lemma verifyCalls_liveAttempt: "verifyCalls (liveAttempt env ref b k) = [(ref, k)]"
  by (cases "VerifyImage env ref k") (simp add: liveAttempt_def)

lemma foldl_appendErr: "foldl appendErr errs es = errs @ reasons es"
  by (induction es arbitrary: errs) (simp_all add: appendErr_def split: option.splits)

lemma verifyCacheBlock_disabled:
  "\<not> onMemoryCacheEnabled (self s) \<Longrightarrow> verifyCacheBlock env s ref keys = Done None"
  by (simp add: verifyCacheBlock_def)

lemma verifyCacheBlock_return:
  assumes "onMemoryCacheEnabled (self s)"
    and "\<forall>p\<in>set pre. getResultFromCache env s ref p = Done (hit p, False, csig p, cts p, cerr p)"
    and "getResultFromCache env s ref k = Done (True, True, sg, ts, e)"
  shows "verifyCacheBlock env s ref (pre @ k # post) = Done (Some (True, sg, ts, e))"
  using assms(1) verifyCacheLoop_return[OF assms(2,3)] by (simp add: verifyCacheBlock_def)

lemma verifyCacheBlock_all_hits:
  assumes "onMemoryCacheEnabled (self s)"
    and "\<forall>k\<in>set keys. getResultFromCache env s ref k = Done (True, False, csig k, cts k, cerr k)"
  shows "verifyCacheBlock env s ref keys =
           Done (Some (False, [], None,
             Some (''signature verification failed: '' @ Join (reasons (map cerr keys)) ''; '')))"
  using assms(1) verifyCacheLoop_end[of keys env s ref "\<lambda>k. True" csig cts cerr False 0 "[]"] assms(2)
  by (simp add: verifyCacheBlock_def foldl_appendErr)

lemma verifyCacheBlock_miss:
  assumes "\<forall>k\<in>set keys. getResultFromCache env s ref k = Done (hit k, False, csig k, cts k, cerr k)"
    and "\<exists>k\<in>set keys. \<not> hit k"
  shows "verifyCacheBlock env s ref keys = Done None"
proof -
  have "length (filter hit keys) \<noteq> length keys"
    using assms(2) by (simp add: length_filter_all)
  moreover have "keys \<noteq> []" using assms(2) by auto
  ultimately show ?thesis
    using verifyCacheLoop_end[OF assms(1), of False 0 "[]"]
    by (simp add: verifyCacheBlock_def)
qed

lemma Verify_unfold:
  assumes "imageRef (self s) = ref" and "ref \<noteq> []"
    and "verifyPubkeys env (pubkeyPathString (self s)) = keys"
  shows "ImageSignatureVerifier_Verify env s =
           (case verifyCacheBlock env s ref keys of
              Panic \<Rightarrow> (Panic, s)
            | Done (Some r) \<Rightarrow> (Done r, s)
            | Done None \<Rightarrow> (Done (fst (verifyLiveLoop env ref keys [] s)),
                             snd (verifyLiveLoop env ref keys [] s)))"
  using assms
  by (simp add: ImageSignatureVerifier_Verify_def Let_def case_prod_beta
           split: exec.splits option.splits)

lemma Verify_live:
  assumes "imageRef (self s) = ref" and "ref \<noteq> []"
    and "verifyPubkeys env (pubkeyPathString (self s)) = keys"
    and "\<not> onMemoryCacheEnabled (self s) \<or>
         ((\<forall>k\<in>set keys. getResultFromCache env s ref k = Done (hit k, False, csig k, cts k, cerr k))
          \<and> (\<exists>k\<in>set keys. \<not> hit k))"
  shows "ImageSignatureVerifier_Verify env s =
           (Done (fst (verifyLiveLoop env ref keys [] s)), snd (verifyLiveLoop env ref keys [] s))"
proof -
  have "verifyCacheBlock env s ref keys = Done None"
    using assms(4) verifyCacheBlock_disabled verifyCacheBlock_miss by blast
  then show ?thesis using Verify_unfold[OF assms(1-3)] by simp
qed

section \<open>What a call leaves unchanged\<close>

lemma onlyCacheIO_refl: "onlyCacheIO env s s"
  by (simp add: onlyCacheIO_def)

lemma onlyCacheIO_I:
  "self s' = self s \<Longrightarrow> trace s' = trace s @ evs \<Longrightarrow> cache s' = applySets env evs (cache s)
   \<Longrightarrow> onlyCacheIO env s s'"
  by (simp add: onlyCacheIO_def)

lemma onlyCacheIO_D:
  "onlyCacheIO env s s' \<Longrightarrow>
   self s' = self s \<and> (\<exists>evs. trace s' = trace s @ evs \<and> cache s' = applySets env evs (cache s))"
  unfolding onlyCacheIO_def by (metis append_take_drop_id)

lemma onlyCacheIO_trans:
  assumes "onlyCacheIO env s s1" and "onlyCacheIO env s1 s2"
  shows "onlyCacheIO env s s2"
proof -
  obtain e1 where 1: "self s1 = self s" "trace s1 = trace s @ e1" "cache s1 = applySets env e1 (cache s)"
    using onlyCacheIO_D[OF assms(1)] by blast
  obtain e2 where 2: "self s2 = self s1" "trace s2 = trace s1 @ e2" "cache s2 = applySets env e2 (cache s1)"
    using onlyCacheIO_D[OF assms(2)] by blast
  show ?thesis
    by (rule onlyCacheIO_I[where evs = "e1 @ e2"]) (simp_all add: 1 2 applySets_append)
qed

lemma Verify_image_frame: "onlyCacheIO env s (snd (ImageSignatureVerifier_Verify env s))"
proof -
  have live: "onlyCacheIO env s (snd (verifyLiveLoop env ref keys [] s))" for ref keys
    by (rule onlyCacheIO_I[OF verifyLiveLoop_self verifyLiveLoop_trace verifyLiveLoop_cache])
  show ?thesis
    by (simp add: ImageSignatureVerifier_Verify_def Let_def case_prod_beta onlyCacheIO_refl live
             split: exec.splits option.splits)
qed

lemma Verify_blob_frame: "snd (BlobSignatureVerifier_Verify env s) = s"
  by (simp add: BlobSignatureVerifier_Verify_def Let_def split: exec.splits sum.splits)

lemma setManifestToCache_frame: "onlyCacheIO env s (setManifestToCache env ref b e s)"
  by (rule onlyCacheIO_I[where evs = "[EvSetCache (fetchManifestCacheKey ref) [VBytes b, ifaceOfError e]]"])
     (simp_all add: setManifestToCache_def Let_def case_prod_beta)

lemma getConcatYAMLFromImageRef_frame:
  "onlyCacheIO env s (snd (getConcatYAMLFromImageRef env ref s))"
  by (rule onlyCacheIO_I[where evs = "[EvPullImage ref]"])
     (simp_all add: getConcatYAMLFromImageRef_def Let_def split: sum.splits)

lemma fetchLive_frame: "onlyCacheIO env s (snd (fetchLive env b ref s))"
proof (cases "getConcatYAMLFromImageRef env ref s")
  case (Pair r s1)
  have 1: "onlyCacheIO env s s1"
    using getConcatYAMLFromImageRef_frame[of env s ref] Pair by simp
  show ?thesis
    using 1 onlyCacheIO_trans[OF 1 setManifestToCache_frame]
    by (cases r) (simp_all add: fetchLive_def Pair)
qed

lemma fetchManifestInSingleImage_frame:
  "onlyCacheIO env s (snd (fetchManifestInSingleImage env ref s))"
  by (simp add: fetchManifestInSingleImage_def case_prod_beta onlyCacheIO_refl fetchLive_frame
           split: exec.splits)

lemma imageFetchLoop_frame: "onlyCacheIO env s (snd (imageFetchLoop env obj mp refs s))"
proof (induction refs arbitrary: s)
  case Nil
  show ?case by (simp add: onlyCacheIO_refl)
next
  case (Cons r refs)
  obtain x s1 where f: "fetchManifestInSingleImage env r s = (x, s1)"
    by (cases "fetchManifestInSingleImage env r s") auto
  have 1: "onlyCacheIO env s s1"
    using fetchManifestInSingleImage_frame[of env s r] f by simp
  have 2: "onlyCacheIO env s (snd (imageFetchLoop env obj mp refs s1))"
    by (rule onlyCacheIO_trans[OF 1 Cons.IH])
  show ?case using 1 2
    by (simp add: f case_prod_beta Let_def split: exec.splits sum.splits)
qed

lemma Fetch_image_frame: "onlyCacheIO env s (snd (ImageManifestFetcher_Fetch env obj s))"
  by (simp add: ImageManifestFetcher_Fetch_def Let_def onlyCacheIO_refl imageFetchLoop_frame)

lemma Fetch_blob_frame: "snd (BlobManifestFetcher_Fetch env obj s) = s"
  by (simp add: BlobManifestFetcher_Fetch_def fetchManifestFromResource_def Let_def case_prod_beta
           split: option.splits sum.splits)

section \<open>The bundle of the blob verifier\<close>

lemma assembleSigMap_lookup:
  assumes "distinct [MessageAnnotationBaseName env, SignatureAnnotationBaseName env,
                     CertificateAnnotationBaseName env, BundleAnnotationBaseName env]"
  shows "assembleSigMap env msg sig cert bundle (MessageAnnotationBaseName env) = bytesOf msg"
    and "assembleSigMap env msg sig cert bundle (SignatureAnnotationBaseName env) = bytesOf sig"
    and "assembleSigMap env msg sig cert bundle (CertificateAnnotationBaseName env) = bytesOf cert"
    and "assembleSigMap env msg sig cert bundle (BundleAnnotationBaseName env) = bytesOf bundle"
  using assms by (auto simp add: assembleSigMap_def putNonEmpty_def bytesOf_def)

lemma Verify_blob_dispatch:
  assumes "distinct [MessageAnnotationBaseName env, SignatureAnnotationBaseName env,
                     CertificateAnnotationBaseName env, BundleAnnotationBaseName env]"
    and "getSignatures env s = Done (Inr (assembleSigMap env msg sig cert bundle))"
  shows "BlobSignatureVerifier_Verify env s =
           (Done (dispatched env (blobPubkeyPathString (self s))
                    (bytesOf msg) (bytesOf sig) (bytesOf cert) (bytesOf bundle)), s)"
  using assms(2) assembleSigMap_lookup[OF assms(1)]
  by (cases "GetSignatureTypeFromPublicKey env (blobPubkeyPathString (self s))")
     (simp_all add: BlobSignatureVerifier_Verify_def Let_def dispatched_def)

lemma getSignatures_present:
  assumes "(resourceRef (self s) = []
            \<and> annotations (self s) (MessageAnnotationKey (blobAnnotationConfig (self s))) = Some msg
            \<and> annotations (self s) (SignatureAnnotationKey (blobAnnotationConfig (self s))) = Some sig)
         \<or> (resourceRef (self s) \<noteq> []
            \<and> GetConfigMapFromK8sObjectRef env (resourceRef (self s)) = Inr (Some cm)
            \<and> Data cm (MessageAnnotationBaseName env) = Some msg
            \<and> Data cm (SignatureAnnotationBaseName env) = Some sig)"
  shows "\<exists>cert bundle. getSignatures env s = Done (Inr (assembleSigMap env msg sig cert bundle))"
  using assms by (elim disjE conjE; simp add: getSignatures_def Let_def; blast)

text \<open>
  Claim C10. When the message and the signature are present in the source the verifier
  reads (the annotations, or the data of the config map), \<open>getSignatures\<close> returns a
  bundle and no error, also when one of them is the empty string; the bundle then has no
  entry for it, and \<open>Verify\<close> hands \<open>nil\<close> bytes for it to the dispatcher of the
  signature type.
\<close>

theorem BlobSignatureVerifier_empty_entries:
  assumes "distinct [MessageAnnotationBaseName env, SignatureAnnotationBaseName env,
                     CertificateAnnotationBaseName env, BundleAnnotationBaseName env]"
    and "(resourceRef (self s) = []
            \<and> annotations (self s) (MessageAnnotationKey (blobAnnotationConfig (self s))) = Some msg
            \<and> annotations (self s) (SignatureAnnotationKey (blobAnnotationConfig (self s))) = Some sig)
         \<or> (resourceRef (self s) \<noteq> []
            \<and> GetConfigMapFromK8sObjectRef env (resourceRef (self s)) = Inr (Some cm)
            \<and> Data cm (MessageAnnotationBaseName env) = Some msg
            \<and> Data cm (SignatureAnnotationBaseName env) = Some sig)"
  shows "\<exists>sigMap certBytes bundleBytes.
           getSignatures env s = Done (Inr sigMap)
           \<and> sigMap (MessageAnnotationBaseName env) = (if msg = [] then None else Some msg)
           \<and> sigMap (SignatureAnnotationBaseName env) = (if sig = [] then None else Some sig)
           \<and> BlobSignatureVerifier_Verify env s =
               (Done (dispatched env (blobPubkeyPathString (self s))
                        (if msg = [] then None else Some msg)
                        (if sig = [] then None else Some sig) certBytes bundleBytes), s)"
proof -
  from getSignatures_present[OF assms(2)] obtain crt bdl where
    g: "getSignatures env s = Done (Inr (assembleSigMap env msg sig crt bdl))"
    by blast
  show ?thesis
    using g Verify_blob_dispatch[OF assms(1) g] assembleSigMap_lookup(1,2)[OF assms(1)]
    by (auto simp add: bytesOf_def)
qed

text \<open>Claim C10 at the object \<open>blank\<close> and at the config map \<open>sig-cm\<close>, both with an
  empty message: the dispatcher is called without message bytes.\<close>

theorem BlobSignatureVerifier_empty_entries_witness:
  "fst (BlobSignatureVerifier_Verify sampleEnv
         (initState (sampleBlobVerifier []) (Map.empty :: string \<rightharpoonup> cache_val list)))
     = Done (False, [], None, Some ''no message'')
   \<and> fst (BlobSignatureVerifier_Verify sampleEnv
         (initState (sampleBlobVerifier ''k8s://sig-cm'') (Map.empty :: string \<rightharpoonup> cache_val list)))
     = Done (False, [], None, Some ''no message'')"
proof -
  let ?a = "initState (sampleBlobVerifier []) (Map.empty :: string \<rightharpoonup> cache_val list)"
  let ?b = "initState (sampleBlobVerifier ''k8s://sig-cm'') (Map.empty :: string \<rightharpoonup> cache_val list)"
  have d: "distinct [MessageAnnotationBaseName sampleEnv, SignatureAnnotationBaseName sampleEnv,
                     CertificateAnnotationBaseName sampleEnv, BundleAnnotationBaseName sampleEnv]"
    by code_simp
  have a: "(resourceRef (self ?a) = []
            \<and> annotations (self ?a) (MessageAnnotationKey (blobAnnotationConfig (self ?a))) = Some []
            \<and> annotations (self ?a) (SignatureAnnotationKey (blobAnnotationConfig (self ?a))) = Some ''c2ln'')
         \<or> (resourceRef (self ?a) \<noteq> []
            \<and> GetConfigMapFromK8sObjectRef sampleEnv (resourceRef (self ?a)) = Inr (Some sampleConfigMap)
            \<and> Data sampleConfigMap (MessageAnnotationBaseName sampleEnv) = Some []
            \<and> Data sampleConfigMap (SignatureAnnotationBaseName sampleEnv) = Some ''c2ln'')"
    by (simp add: initState_def sampleBlobVerifier_def sampleEnv_def sampleConfig_def)
  have b: "(resourceRef (self ?b) = []
            \<and> annotations (self ?b) (MessageAnnotationKey (blobAnnotationConfig (self ?b))) = Some []
            \<and> annotations (self ?b) (SignatureAnnotationKey (blobAnnotationConfig (self ?b))) = Some ''c2ln'')
         \<or> (resourceRef (self ?b) \<noteq> []
            \<and> GetConfigMapFromK8sObjectRef sampleEnv (resourceRef (self ?b)) = Inr (Some sampleConfigMap)
            \<and> Data sampleConfigMap (MessageAnnotationBaseName sampleEnv) = Some []
            \<and> Data sampleConfigMap (SignatureAnnotationBaseName sampleEnv) = Some ''c2ln'')"
    by (simp add: initState_def sampleBlobVerifier_def sampleEnv_def sampleConfig_def
          sampleConfigMap_def GetConfigMapFromK8sObjectRef_def HasPrefix_def
          InClusterObjectPrefix_def)
  have c: "dispatched sampleEnv None None sb cb bb = (False, [], None, Some ''no message'')"
    for sb cb bb
    by (simp add: dispatched_def sampleEnv_def)
  have pa: "blobPubkeyPathString (self ?a) = None" and pb: "blobPubkeyPathString (self ?b) = None"
    by (simp_all add: initState_def sampleBlobVerifier_def)
  show ?thesis
    using BlobSignatureVerifier_empty_entries[OF d a] BlobSignatureVerifier_empty_entries[OF d b]
    by (auto simp add: c pa pb)
qed

section \<open>The factories\<close>

text \<open>
  Claim C1, as amended. For an explicit reference that begins with the in-cluster prefix,
  \<open>NewSignatureVerifier\<close> returns a blob verifier bound to that reference when the object
  carries no image-reference annotation, or one that is empty or the embedded sentinel.
  When the object carries an image-reference annotation with any other value, it returns
  an image verifier bound to the annotation's value. \<open>NewManifestFetcher\<close>, given no
  image reference and that resource reference, returns a blob fetcher bound to it.
\<close>

theorem NewSignatureVerifier_resource_ref:
  assumes "HasPrefix sigRef InClusterObjectPrefix"
  shows "(GetAnnotationsInYAML env obj (ImageRefAnnotationKey cfg) = None
          \<or> GetAnnotationsInYAML env obj (ImageRefAnnotationKey cfg) = Some []
          \<or> GetAnnotationsInYAML env obj (ImageRefAnnotationKey cfg) = Some SigRefEmbeddedInAnnotation
          \<longrightarrow> NewSignatureVerifier env obj sigRef pubkeyPath cfg =
                BlobVerifier \<lparr>annotations = GetAnnotationsInYAML env obj, resourceRef = sigRef,
                  blobPubkeyPathString = (case pubkeyPath of None \<Rightarrow> None
                                          | Some p \<Rightarrow> if p \<noteq> [] then pubkeyPath else None),
                  blobAnnotationConfig = cfg\<rparr>)
       \<and> (GetAnnotationsInYAML env obj (ImageRefAnnotationKey cfg) = Some a
            \<and> a \<noteq> [] \<and> a \<noteq> SigRefEmbeddedInAnnotation
          \<longrightarrow> NewSignatureVerifier env obj sigRef pubkeyPath cfg =
                ImageVerifier \<lparr>imageRef = a,
                  pubkeyPathString = (case pubkeyPath of None \<Rightarrow> None
                                      | Some p \<Rightarrow> if p \<noteq> [] then pubkeyPath else None),
                  onMemoryCacheEnabled = True, annotationConfig = cfg\<rparr>)
       \<and> NewManifestFetcher [] sigRef cfg ign maxNum =
            BlobFetcher \<lparr>blobFetcherAnnotationConfig = cfg, resourceRefString = sigRef,
              blobIgnoreFields = ign, blobMaxResourceManifestNum = maxNum\<rparr>"
  using assms
  by (auto simp add: NewSignatureVerifier_def NewManifestFetcher_def Let_def)

text \<open>The claim C1 as it was stated fails: the object \<open>annotated\<close> carries an
  image-reference annotation, and the verifier built for a reference to a config map is
  an image verifier bound to the annotation.\<close>

theorem NewSignatureVerifier_resource_ref_counterexample:
  "HasPrefix ''k8s://ConfigMap/ns1/sig-cm'' InClusterObjectPrefix
   \<and> NewSignatureVerifier sampleEnv (Some ''annotated'') ''k8s://ConfigMap/ns1/sig-cm'' None sampleConfig
       = ImageVerifier \<lparr>imageRef = ''repo/app:v1'', pubkeyPathString = None,
           onMemoryCacheEnabled = True, annotationConfig = sampleConfig\<rparr>"
  by (simp add: NewSignatureVerifier_def sampleEnv_def sampleConfig_def Let_def HasPrefix_def
        InClusterObjectPrefix_def SigRefEmbeddedInAnnotation_def)

text \<open>The amended claim C1 at the objects \<open>plain\<close> and \<open>annotated\<close>.\<close>

theorem NewSignatureVerifier_resource_ref_witness:
  "NewSignatureVerifier sampleEnv (Some ''plain'') ''k8s://ConfigMap/ns1/sig-cm'' None sampleConfig
       = BlobVerifier \<lparr>annotations = GetAnnotationsInYAML sampleEnv (Some ''plain''),
           resourceRef = ''k8s://ConfigMap/ns1/sig-cm'', blobPubkeyPathString = None,
           blobAnnotationConfig = sampleConfig\<rparr>
   \<and> NewSignatureVerifier sampleEnv (Some ''annotated'') ''k8s://ConfigMap/ns1/sig-cm'' None sampleConfig
       = ImageVerifier \<lparr>imageRef = ''repo/app:v1'', pubkeyPathString = None,
           onMemoryCacheEnabled = True, annotationConfig = sampleConfig\<rparr>
   \<and> NewManifestFetcher [] ''k8s://ConfigMap/ns1/sig-cm'' sampleConfig [] 0
       = BlobFetcher \<lparr>blobFetcherAnnotationConfig = sampleConfig,
           resourceRefString = ''k8s://ConfigMap/ns1/sig-cm'',
           blobIgnoreFields = [], blobMaxResourceManifestNum = 0\<rparr>"
proof -
  have p: "HasPrefix ''k8s://ConfigMap/ns1/sig-cm'' InClusterObjectPrefix" by code_simp
  have n: "GetAnnotationsInYAML sampleEnv (Some ''plain'') (ImageRefAnnotationKey sampleConfig) = None"
    by code_simp
  have a: "GetAnnotationsInYAML sampleEnv (Some ''annotated'') (ImageRefAnnotationKey sampleConfig)
             = Some ''repo/app:v1''
           \<and> ''repo/app:v1'' \<noteq> [] \<and> ''repo/app:v1'' \<noteq> SigRefEmbeddedInAnnotation"
    by code_simp
  show ?thesis
    using NewSignatureVerifier_resource_ref[OF p, of sampleEnv "Some ''plain''" sampleConfig None _ "[]" 0]
      NewSignatureVerifier_resource_ref[OF p, of sampleEnv "Some ''annotated''" sampleConfig None "''repo/app:v1''"]
      n a
    by simp
qed



section \<open>The cache stage and the live stage of \<open>Verify\<close>\<close>

text \<open>
  Claim C4, as amended. For a non-empty key list and caching enabled: the first key whose
  cache entry is a verified hit makes \<open>Verify\<close> return that entry, the state unchanged;
  when every key is a hit and none verified, \<open>Verify\<close> returns the failure built from the
  cached errors, the state unchanged (no live verification); when no key has a verified
  hit and some key is a miss, the keys are verified live in order from the first one,
  hits included, up to and including the first key that verifies, and the outcome of each
  attempt is written to the cache.
\<close>

theorem Verify_cache_stage:
  assumes "imageRef (self s) = ref" and "ref \<noteq> []"
    and "verifyPubkeys env (pubkeyPathString (self s)) = keys" and "keys \<noteq> []"
    and "onMemoryCacheEnabled (self s)"
  shows
    "(keys = pre @ k # post
        \<and> (\<forall>p\<in>set pre. getResultFromCache env s ref p = Done (hit p, False, csig p, cts p, cerr p))
        \<and> getResultFromCache env s ref k = Done (True, True, sg, ts, e)
      \<longrightarrow> ImageSignatureVerifier_Verify env s = (Done (True, sg, ts, e), s))
     \<and> ((\<forall>k\<in>set keys. getResultFromCache env s ref k = Done (True, False, csig k, cts k, cerr k))
      \<longrightarrow> ImageSignatureVerifier_Verify env s =
            (Done (False, [], None,
               Some (''signature verification failed: '' @ Join (reasons (map cerr keys)) ''; '')), s))
     \<and> ((\<forall>k\<in>set keys. getResultFromCache env s ref k = Done (hit k, False, csig k, cts k, cerr k))
        \<and> (\<exists>k\<in>set keys. \<not> hit k)
      \<longrightarrow> trace (snd (ImageSignatureVerifier_Verify env s)) =
            trace s @ concat (map (liveAttempt env ref True) (attemptedKeys env ref keys))
          \<and> cache (snd (ImageSignatureVerifier_Verify env s)) =
            applySets env (concat (map (liveAttempt env ref True) (attemptedKeys env ref keys)))
              (cache s))"
proof (intro conjI impI)
  assume h: "keys = pre @ k # post
        \<and> (\<forall>p\<in>set pre. getResultFromCache env s ref p = Done (hit p, False, csig p, cts p, cerr p))
        \<and> getResultFromCache env s ref k = Done (True, True, sg, ts, e)"
  then have "verifyCacheBlock env s ref keys = Done (Some (True, sg, ts, e))"
    using verifyCacheBlock_return[OF assms(5), of pre env ref hit csig cts cerr k sg ts e post]
    by simp
  then show "ImageSignatureVerifier_Verify env s = (Done (True, sg, ts, e), s)"
    using Verify_unfold[OF assms(1-3)] by simp
next
  assume h: "\<forall>k\<in>set keys. getResultFromCache env s ref k = Done (True, False, csig k, cts k, cerr k)"
  show "ImageSignatureVerifier_Verify env s =
            (Done (False, [], None,
               Some (''signature verification failed: '' @ Join (reasons (map cerr keys)) ''; '')), s)"
    using Verify_unfold[OF assms(1-3)] verifyCacheBlock_all_hits[OF assms(5) h] by simp
next
  assume h: "(\<forall>k\<in>set keys. getResultFromCache env s ref k = Done (hit k, False, csig k, cts k, cerr k))
        \<and> (\<exists>k\<in>set keys. \<not> hit k)"
  have live: "ImageSignatureVerifier_Verify env s =
           (Done (fst (verifyLiveLoop env ref keys [] s)), snd (verifyLiveLoop env ref keys [] s))"
    using Verify_live[OF assms(1-3)] h by blast
  show "trace (snd (ImageSignatureVerifier_Verify env s)) =
            trace s @ concat (map (liveAttempt env ref True) (attemptedKeys env ref keys))"
    using assms(5) by (simp add: live verifyLiveLoop_trace)
  show "cache (snd (ImageSignatureVerifier_Verify env s)) =
            applySets env (concat (map (liveAttempt env ref True) (attemptedKeys env ref keys)))
              (cache s)"
    using assms(5) by (simp add: live verifyLiveLoop_cache)
qed

text \<open>The claim C4 as it was stated fails: with \<open>k2\<close> a cache miss and \<open>k3\<close> a cached
  failure, live verification is not performed for every key; it stops at \<open>k2\<close>, which
  verifies, and \<open>k3\<close> is never verified live.\<close>

theorem Verify_cache_stage_counterexample:
  "verifyPubkeys sampleEnv (Some ''k2,k3'') = [''k2'', ''k3'']
   \<and> getResultFromCache sampleEnv (initState (sampleImageVerifier (Some ''k2,k3'')) cacheFailedK3)
        ''img'' ''k2'' = Done (False, False, [], None, None)
   \<and> fst (ImageSignatureVerifier_Verify sampleEnv
            (initState (sampleImageVerifier (Some ''k2,k3'')) cacheFailedK3))
       = Done (True, ''alice'', Some 1650000000, None)
   \<and> verifyCalls (trace (snd (ImageSignatureVerifier_Verify sampleEnv
            (initState (sampleImageVerifier (Some ''k2,k3'')) cacheFailedK3))))
       = [(''img'', ''k2'')]"
  by code_simp

text \<open>The amended claim C4 on three caches: a verified hit for the second key, failed
  hits for both keys, and a miss for the first key with a failed hit for the second.\<close>

theorem Verify_cache_stage_witness:
  "fst (ImageSignatureVerifier_Verify sampleEnv
          (initState (sampleImageVerifier (Some ''k1,k2'')) cacheVerifiedK2))
     = Done (True, ''alice'', None, None)
   \<and> trace (snd (ImageSignatureVerifier_Verify sampleEnv
          (initState (sampleImageVerifier (Some ''k1,k2'')) cacheVerifiedK2))) = []
   \<and> fst (ImageSignatureVerifier_Verify sampleEnv
          (initState (sampleImageVerifier (Some ''k1,k3'')) cacheFailedK1K3))
     = Done (False, [], None, Some ''signature verification failed: old: k1; old: k3'')
   \<and> trace (snd (ImageSignatureVerifier_Verify sampleEnv
          (initState (sampleImageVerifier (Some ''k1,k3'')) cacheFailedK1K3))) = []
   \<and> trace (snd (ImageSignatureVerifier_Verify sampleEnv
          (initState (sampleImageVerifier (Some ''k1,k3'')) cacheFailedK3)))
     = [EvVerifyImage ''img'' ''k1'',
        EvSetCache ''cache/verify-image/img/k1''
          [VBool False, VString [], VInt64Ptr None, VError ''no match: k1''],
        EvVerifyImage ''img'' ''k3'',
        EvSetCache ''cache/verify-image/img/k3''
          [VBool False, VString [], VInt64Ptr None, VError ''no match: k3'']]"
proof -
  let ?a = "initState (sampleImageVerifier (Some ''k1,k2'')) cacheVerifiedK2"
  let ?b = "initState (sampleImageVerifier (Some ''k1,k3'')) cacheFailedK1K3"
  let ?c = "initState (sampleImageVerifier (Some ''k1,k3'')) cacheFailedK3"
  let ?no = "\<lambda>k::string. False"
  let ?k3 = "\<lambda>k::string. k = ''k3''"
  let ?sig = "\<lambda>k::string. []::string"
  let ?ts = "\<lambda>k::string. None::int64ptr"
  let ?none = "\<lambda>k::string. None::error"
  let ?old = "\<lambda>k::string. Some (''old: '' @ k)"
  let ?old3 = "\<lambda>k::string. if k = ''k3'' then Some (''old: '' @ k) else None"
  have a1: "imageRef (self ?a) = ''img''" and a2: "''img'' \<noteq> []"
    and a3: "verifyPubkeys sampleEnv (pubkeyPathString (self ?a)) = [''k1'', ''k2'']"
    and a4: "[''k1'', ''k2''] \<noteq> []" and a5: "onMemoryCacheEnabled (self ?a)"
    by code_simp+
  have b1: "imageRef (self ?b) = ''img''"
    and b3: "verifyPubkeys sampleEnv (pubkeyPathString (self ?b)) = [''k1'', ''k3'']"
    and b4: "[''k1'', ''k3''] \<noteq> []" and b5: "onMemoryCacheEnabled (self ?b)"
    by code_simp+
  have c1: "imageRef (self ?c) = ''img''"
    and c3: "verifyPubkeys sampleEnv (pubkeyPathString (self ?c)) = [''k1'', ''k3'']"
    and c5: "onMemoryCacheEnabled (self ?c)"
    by code_simp+
  have ha: "[''k1'', ''k2''] = [''k1''] @ ''k2'' # []
        \<and> (\<forall>p\<in>set [''k1'']. getResultFromCache sampleEnv ?a ''img'' p
               = Done (?no p, False, ?sig p, ?ts p, ?none p))
        \<and> getResultFromCache sampleEnv ?a ''img'' ''k2'' = Done (True, True, ''alice'', None, None)"
    by code_simp
  have hb: "\<forall>k\<in>set [''k1'', ''k3'']. getResultFromCache sampleEnv ?b ''img'' k
               = Done (True, False, ?sig k, ?ts k, ?old k)"
    by code_simp
  have hc: "(\<forall>k\<in>set [''k1'', ''k3'']. getResultFromCache sampleEnv ?c ''img'' k
               = Done (?k3 k, False, ?sig k, ?ts k, ?old3 k))
        \<and> (\<exists>k\<in>set [''k1'', ''k3'']. \<not> ?k3 k)"
    by code_simp
  have ra: "ImageSignatureVerifier_Verify sampleEnv ?a = (Done (True, ''alice'', None, None), ?a)"
    using Verify_cache_stage[OF a1 a2 a3 a4 a5, where hit = ?no and csig = ?sig and cts = ?ts
            and cerr = ?none and pre = "[''k1'']" and k = "''k2''" and post = "[]"
            and sg = "''alice''" and ts = None and e = None] ha
    by blast
  have rb: "ImageSignatureVerifier_Verify sampleEnv ?b =
              (Done (False, [], None,
                 Some (''signature verification failed: ''
                       @ Join (reasons (map ?old [''k1'', ''k3''])) ''; '')), ?b)"
    using Verify_cache_stage[OF b1 a2 b3 b4 b5, where csig = ?sig and cts = ?ts and cerr = ?old] hb
    by blast
  have rc: "trace (snd (ImageSignatureVerifier_Verify sampleEnv ?c)) =
              trace ?c @ concat (map (liveAttempt sampleEnv ''img'' True)
                                   (attemptedKeys sampleEnv ''img'' [''k1'', ''k3'']))"
    using Verify_cache_stage[OF c1 a2 c3 b4 c5, where hit = ?k3 and csig = ?sig and cts = ?ts
            and cerr = ?old3] hc
    by blast
  have ev: "trace ?c @ concat (map (liveAttempt sampleEnv ''img'' True)
                                   (attemptedKeys sampleEnv ''img'' [''k1'', ''k3'']))
            = [EvVerifyImage ''img'' ''k1'',
               EvSetCache ''cache/verify-image/img/k1''
                 [VBool False, VString [], VInt64Ptr None, VError ''no match: k1''],
               EvVerifyImage ''img'' ''k3'',
               EvSetCache ''cache/verify-image/img/k3''
                 [VBool False, VString [], VInt64Ptr None, VError ''no match: k3'']]"
    by code_simp
  have tr: "trace ?a = []" "trace ?b = []"
    by (simp_all add: initState_def)
  have jn: "''signature verification failed: '' @ Join (reasons (map ?old [''k1'', ''k3''])) ''; ''
            = ''signature verification failed: old: k1; old: k3''"
    by code_simp
  show ?thesis
    using ra rb rc ev tr jn by simp
qed

text \<open>
  Claim C5, as amended. For a non-empty key list where the cache stage falls through
  (caching disabled, or no verified hit and some miss) and every key fails live
  verification, \<open>Verify\<close> returns \<open>verified = false\<close> with an error whose text is
  \<open>signature verification failed: \<close> followed by the per-key failure reasons that are
  not \<open>nil\<close>, in key order, joined by a semicolon and a space.
\<close>

theorem Verify_all_keys_fail:
  assumes "imageRef (self s) = ref" and "ref \<noteq> []"
    and "verifyPubkeys env (pubkeyPathString (self s)) = keys" and "keys \<noteq> []"
    and "\<not> onMemoryCacheEnabled (self s) \<or>
         ((\<forall>k\<in>set keys. getResultFromCache env s ref k = Done (hit k, False, csig k, cts k, cerr k))
          \<and> (\<exists>k\<in>set keys. \<not> hit k))"
    and "\<forall>k\<in>set keys. \<not> fst (VerifyImage env ref k)"
  shows "fst (ImageSignatureVerifier_Verify env s) =
           Done (False, [], None,
             Some (''signature verification failed: ''
                   @ Join (reasons (map (liveErr env ref) keys)) ''; ''))"
proof -
  have "(\<lambda>k. snd (snd (snd (VerifyImage env ref k)))) = liveErr env ref"
    by (simp add: liveErr_def fun_eq_iff)
  then show ?thesis
    using Verify_live[OF assms(1-3,5)] verifyLiveLoop_all_fail[OF assms(6), of "[]" s]
    by (simp add: foldl_appendErr)
qed

text \<open>The claim C5 as it was stated fails: the text of the error is not the joined
  reasons alone, it starts with \<open>signature verification failed: \<close>.\<close>

theorem Verify_all_keys_fail_counterexample:
  "verifyPubkeys sampleEnv (Some ''k1,k3'') = [''k1'', ''k3'']
   \<and> map (liveErr sampleEnv ''img'') [''k1'', ''k3''] = [Some ''no match: k1'', Some ''no match: k3'']
   \<and> fst (ImageSignatureVerifier_Verify sampleEnv
            (initState (sampleImageVerifier (Some ''k1,k3'')) Map.empty))
       = Done (False, [], None, Some ''signature verification failed: no match: k1; no match: k3'')
   \<and> ''signature verification failed: no match: k1; no match: k3''
       \<noteq> Join [''no match: k1'', ''no match: k3''] ''; ''"
  by code_simp

text \<open>The amended claim C5 at the keys \<open>k1,k3\<close>, which both fail, on an empty cache.\<close>

theorem Verify_all_keys_fail_witness:
  "fst (ImageSignatureVerifier_Verify sampleEnv
          (initState (sampleImageVerifier (Some ''k1,k3'')) Map.empty))
     = Done (False, [], None,
         Some (''signature verification failed: ''
               @ Join (reasons (map (liveErr sampleEnv ''img'') [''k1'', ''k3''])) ''; ''))
   \<and> Join (reasons (map (liveErr sampleEnv ''img'') [''k1'', ''k3''])) ''; ''
     = ''no match: k1; no match: k3''"
proof -
  let ?s = "initState (sampleImageVerifier (Some ''k1,k3'')) (Map.empty :: string \<rightharpoonup> cache_val list)"
  have h1: "imageRef (self ?s) = ''img''" and h2: "''img'' \<noteq> []"
    and h3: "verifyPubkeys sampleEnv (pubkeyPathString (self ?s)) = [''k1'', ''k3'']"
    and h4: "[''k1'', ''k3''] \<noteq> []"
    by code_simp+
  have h5: "\<not> onMemoryCacheEnabled (self ?s) \<or>
         ((\<forall>k\<in>set [''k1'', ''k3''].
              getResultFromCache sampleEnv ?s ''img'' k
                = Done ((\<lambda>k. False) k, False, (\<lambda>k. []) k, (\<lambda>k. None) k, (\<lambda>k. None) k))
          \<and> (\<exists>k\<in>set [''k1'', ''k3'']. \<not> (\<lambda>k. False) k))"
    by code_simp
  have h6: "\<forall>k\<in>set [''k1'', ''k3'']. \<not> fst (VerifyImage sampleEnv ''img'' k)" by code_simp
  have j: "Join (reasons (map (liveErr sampleEnv ''img'') [''k1'', ''k3''])) ''; ''
     = ''no match: k1; no match: k3''"
    by code_simp
  show ?thesis
    using Verify_all_keys_fail[OF h1 h2 h3 h4 h5 h6] j by simp
qed

text \<open>
  Claim C6, as amended. For a non-empty key list where the cache stage falls through
  (caching disabled, or no verified hit and some miss), \<open>Verify\<close> returns on the first
  key that live verification accepts, with that key's signer and timestamp and a \<open>nil\<close>
  error; the calls of \<open>VerifyImage\<close> it makes are those for the keys up to that one, so
  no later key is attempted, and the failures of the earlier keys are not part of the
  result.
\<close>

theorem Verify_first_success:
  assumes "imageRef (self s) = ref" and "ref \<noteq> []"
    and "verifyPubkeys env (pubkeyPathString (self s)) = pre @ k # post"
    and "\<not> onMemoryCacheEnabled (self s) \<or>
         ((\<forall>q\<in>set (pre @ k # post).
              getResultFromCache env s ref q = Done (hit q, False, csig q, cts q, cerr q))
          \<and> (\<exists>q\<in>set (pre @ k # post). \<not> hit q))"
    and "\<forall>p\<in>set pre. \<not> fst (VerifyImage env ref p)"
    and "VerifyImage env ref k = (True, sg, ts, None)"
  shows "fst (ImageSignatureVerifier_Verify env s) = Done (True, sg, ts, None)
         \<and> verifyCalls (trace (snd (ImageSignatureVerifier_Verify env s))) =
             verifyCalls (trace s) @ map (Pair ref) (pre @ [k])"
proof -
  have v: "fst (VerifyImage env ref k)" using assms(6) by simp
  have calls: "verifyCalls (concat (map (liveAttempt env ref b) ks)) = map (Pair ref) ks" for b ks
    by (induction ks) (simp_all add: verifyCalls_liveAttempt verifyCalls_append)
  show ?thesis
    using Verify_live[OF assms(1-4)] verifyLiveLoop_first_success[OF assms(5) v, of post "[]" s]
      assms(6) attemptedKeys_first_success[OF assms(5) v, of post]
    by (simp add: verifyLiveLoop_trace verifyCalls_append calls verifyCalls_liveAttempt)
qed

text \<open>The claim C6 as it was stated, for every non-empty key list, fails when the cache
  stage returns: the key \<open>k2\<close> verifies live, yet with a cached failure for it \<open>Verify\<close>
  returns that failure, and with a cached verified result for the later key \<open>k3\<close> it
  returns the signer of \<open>k3\<close>; in both runs \<open>VerifyImage\<close> is never called.\<close>

theorem Verify_first_success_counterexample:
  "verifyPubkeys sampleEnv (Some ''k2'') = [''k2'']
   \<and> VerifyImage sampleEnv ''img'' ''k2'' = (True, ''alice'', Some 1650000000, None)
   \<and> fst (ImageSignatureVerifier_Verify sampleEnv
            (initState (sampleImageVerifier (Some ''k2'')) cacheStaleK2))
       = Done (False, [], None, Some ''signature verification failed: stale: k2'')
   \<and> verifyCalls (trace (snd (ImageSignatureVerifier_Verify sampleEnv
            (initState (sampleImageVerifier (Some ''k2'')) cacheStaleK2)))) = []
   \<and> verifyPubkeys sampleEnv (Some ''k2,k3'') = [''k2'', ''k3'']
   \<and> fst (ImageSignatureVerifier_Verify sampleEnv
            (initState (sampleImageVerifier (Some ''k2,k3'')) cacheVerifiedK3))
       = Done (True, ''carol'', None, None)
   \<and> verifyCalls (trace (snd (ImageSignatureVerifier_Verify sampleEnv
            (initState (sampleImageVerifier (Some ''k2,k3'')) cacheVerifiedK3)))) = []"
  by code_simp

text \<open>The amended claim C6 at the keys \<open>k1,k2,k3\<close>, of which \<open>k2\<close> verifies, on an empty
  cache.\<close>

theorem Verify_first_success_witness:
  "fst (ImageSignatureVerifier_Verify sampleEnv
          (initState (sampleImageVerifier (Some ''k1,k2,k3'')) Map.empty))
     = Done (True, ''alice'', Some 1650000000, None)
   \<and> verifyCalls (trace (snd (ImageSignatureVerifier_Verify sampleEnv
          (initState (sampleImageVerifier (Some ''k1,k2,k3'')) Map.empty))))
     = verifyCalls (trace (initState (sampleImageVerifier (Some ''k1,k2,k3'')) (Map.empty :: string \<rightharpoonup> cache_val list)))
         @ map (Pair ''img'') ([''k1''] @ [''k2''])"
proof -
  let ?s = "initState (sampleImageVerifier (Some ''k1,k2,k3'')) (Map.empty :: string \<rightharpoonup> cache_val list)"
  have h1: "imageRef (self ?s) = ''img''" by code_simp
  have h2: "''img'' \<noteq> []" by simp
  have h3: "verifyPubkeys sampleEnv (pubkeyPathString (self ?s)) = [''k1''] @ ''k2'' # [''k3'']"
    by code_simp
  have h4: "\<not> onMemoryCacheEnabled (self ?s) \<or>
         ((\<forall>q\<in>set ([''k1''] @ ''k2'' # [''k3'']).
              getResultFromCache sampleEnv ?s ''img'' q
                = Done ((\<lambda>q. False) q, False, (\<lambda>q. []) q, (\<lambda>q. None) q, (\<lambda>q. None) q))
          \<and> (\<exists>q\<in>set ([''k1''] @ ''k2'' # [''k3'']). \<not> (\<lambda>q. False) q))"
    by code_simp
  have h5: "\<forall>p\<in>set [''k1'']. \<not> fst (VerifyImage sampleEnv ''img'' p)" by code_simp
  have h6: "VerifyImage sampleEnv ''img'' ''k2'' = (True, ''alice'', Some 1650000000, None)"
    by code_simp
  show ?thesis by (rule Verify_first_success[OF h1 h2 h3 h4 h5 h6])
qed

section \<open>Cached tuples of another length\<close>

text \<open>
  Claim C2 fails on the code. A cached tuple of three values under the key of an image
  verification makes \<open>getResultFromCache\<close> return the error of inconsistent data with
  \<open>cacheFound = false\<close>; \<open>Verify\<close> then treats the key as a miss, verifies live and
  returns the live result, in which the error does not appear. Likewise a cached tuple of
  one value under the key of a manifest makes \<open>getManifestFromCache\<close> return that error
  with \<open>cacheFound = false\<close>, and \<open>Fetch\<close> pulls the image and returns its manifest.
\<close>

theorem cache_arity_mismatch_is_a_miss:
  "getResultFromCache sampleEnv
     (initState (sampleImageVerifier None)
        [''cache/verify-image/img/'' \<mapsto> [VBool True, VString ''alice'', VInt64Ptr None]])
     ''img'' []
   = Done (False, False, [], None,
       Some ''cache returns inconsistent data: a length of verify image result must be 4, but got 3'')
   \<and> fst (ImageSignatureVerifier_Verify sampleEnv
       (initState (sampleImageVerifier None)
          [''cache/verify-image/img/'' \<mapsto> [VBool True, VString ''alice'', VInt64Ptr None]]))
   = Done (False, [], None, Some ''signature verification failed: no match: '')
   \<and> verifyCalls (trace (snd (ImageSignatureVerifier_Verify sampleEnv
       (initState (sampleImageVerifier None)
          [''cache/verify-image/img/'' \<mapsto> [VBool True, VString ''alice'', VInt64Ptr None]]))))
   = [(''img'', [])]
   \<and> getManifestFromCache sampleEnv
       (initState (sampleImageFetcher ''app'') [''cache/fetch-manifest/app'' \<mapsto> [VBytes (Some ''old'')]])
       ''app''
   = Done (False, None,
       Some ''cache returns inconsistent data: a length of fetch manifest result must be 2, but got 1'')
   \<and> fst (ImageManifestFetcher_Fetch sampleEnv (Some ''app'')
       (initState (sampleImageFetcher ''app'') [''cache/fetch-manifest/app'' \<mapsto> [VBytes (Some ''old'')]]))
   = Done (Some [Some ''app''], ''app'', None)
   \<and> trace (snd (ImageManifestFetcher_Fetch sampleEnv (Some ''app'')
       (initState (sampleImageFetcher ''app'') [''cache/fetch-manifest/app'' \<mapsto> [VBytes (Some ''old'')]])))
   = [EvPullImage ''app'', EvSetCache ''cache/fetch-manifest/app'' [VBytes (Some ''app''), VNil]]"
  by code_simp

section \<open>The fetchers\<close>

text \<open>
  Claim C7. For a blob fetcher without a resource reference and an object whose
  annotations lack the message annotation, \<open>Fetch\<close> returns \<open>(nil, "", nil)\<close>.
\<close>

theorem Fetch_blob_no_annotation:
  assumes "resourceRefString (self s) = []"
    and "GetAnnotationsInYAML env obj (MessageAnnotationKey (blobFetcherAnnotationConfig (self s))) = None"
  shows "BlobManifestFetcher_Fetch env obj s = (Done (None, [], None), s)"
  using assms by (simp add: BlobManifestFetcher_Fetch_def Let_def)

text \<open>Claim C7 at the object \<open>plain\<close>, which has no annotations.\<close>

theorem Fetch_blob_no_annotation_witness:
  "BlobManifestFetcher_Fetch sampleEnv (Some ''plain'') (initState (sampleBlobFetcher []) (Map.empty :: string \<rightharpoonup> cache_val list))
     = (Done (None, [], None), initState (sampleBlobFetcher []) Map.empty)"
proof -
  let ?s = "initState (sampleBlobFetcher []) (Map.empty :: string \<rightharpoonup> cache_val list)"
  have h1: "resourceRefString (self ?s) = []" by code_simp
  have h2: "GetAnnotationsInYAML sampleEnv (Some ''plain'')
              (MessageAnnotationKey (blobFetcherAnnotationConfig (self ?s))) = None"
    by code_simp
  show ?thesis by (rule Fetch_blob_no_annotation[OF h1 h2])
qed

lemma imageFetchLoop_skip:
  "imageRefsSkipped env obj mp pre s = Some s1 \<Longrightarrow>
   imageFetchLoop env obj mp (pre @ rest) s = imageFetchLoop env obj mp rest s1"
proof (induction pre arbitrary: s)
  case Nil
  then show ?case by simp
next
  case (Cons r pre)
  then show ?case
    by (auto simp add: case_prod_beta Let_def split: prod.splits exec.splits sum.splits if_splits)
qed

lemma resourceFetchLoop_skip:
  "\<forall>p\<in>set pre. fetchManifestInSingleConfigMap env p = Done (Inr (yamls p))
                 \<and> \<not> fst (FindManifestYAML env (yamls p) obj mp ign) \<Longrightarrow>
   resourceFetchLoop env obj mp ign (pre @ rest) = resourceFetchLoop env obj mp ign rest"
  by (induction pre) (simp_all add: case_prod_beta)

lemma Fetch_image_loop:
  assumes "imageRefString (self s) = str" and "str \<noteq> []"
    and "SplitCommaSeparatedString env str = refs"
  shows "ImageManifestFetcher_Fetch env obj s =
           imageFetchLoop env obj (maxNumPtr (maxResourceManifestNum (self s))) refs s"
  using assms by (simp add: ImageManifestFetcher_Fetch_def Let_def)

lemma fetchManifestFromResource_loop:
  assumes "resourceRefString (self b) = rstr" and "rstr \<noteq> []"
    and "SplitCommaSeparatedString env rstr = rrefs"
  shows "fetchManifestFromResource env obj b =
           (resourceFetchLoop env obj (maxNumPtr (blobMaxResourceManifestNum (self b)))
              (blobIgnoreFields (self b)) rrefs, b)"
  using assms by (simp add: fetchManifestFromResource_def Let_def)

text \<open>
  Claim C3, as amended. \<open>ImageManifestFetcher.Fetch\<close> and
  \<open>BlobManifestFetcher.fetchManifestFromResource\<close> try the references of the
  comma-separated list in order. After references that were fetched without a match, a
  reference whose manifests cannot be fetched ends the call with the error of that fetch
  alone, and no later reference is tried; a reference whose manifests match ends the call
  with the matched manifests and that reference; when every reference was fetched and
  none matched, the error is one fixed message.
\<close>

theorem Fetch_reference_loop:
  assumes "imageRefString (self s) = str" and "str \<noteq> []"
    and "SplitCommaSeparatedString env str = refs"
    and "maxNumPtr (maxResourceManifestNum (self s)) = mp"
    and "resourceRefString (self b) = rstr" and "rstr \<noteq> []"
    and "SplitCommaSeparatedString env rstr = rrefs"
    and "maxNumPtr (blobMaxResourceManifestNum (self b)) = bmp"
    and "blobIgnoreFields (self b) = ign"
  shows
    "(refs = pre @ r # post \<and> imageRefsSkipped env obj mp pre s = Some s1
        \<and> fetchManifestInSingleImage env r s1 = (Done (Inl e), s2)
      \<longrightarrow> ImageManifestFetcher_Fetch env obj s = (Done (None, [], Some e), s2))
     \<and> (refs = pre @ r # post \<and> imageRefsSkipped env obj mp pre s = Some s1
        \<and> fetchManifestInSingleImage env r s1 = (Done (Inr c), s2)
        \<and> FindManifestYAML env c obj mp (ignoreFields (self s2)) = (True, ms)
      \<longrightarrow> ImageManifestFetcher_Fetch env obj s = (Done (ms, r, None), s2))
     \<and> (imageRefsSkipped env obj mp refs s = Some s1
      \<longrightarrow> ImageManifestFetcher_Fetch env obj s =
            (Done (None, [], Some ''failed to find a YAML manifest in the image''), s1))
     \<and> (rrefs = rpre @ rr # rpost
        \<and> (\<forall>p\<in>set rpre. fetchManifestInSingleConfigMap env p = Done (Inr (yamls p))
                          \<and> \<not> fst (FindManifestYAML env (yamls p) obj bmp ign))
        \<and> fetchManifestInSingleConfigMap env rr = Done (Inl e')
      \<longrightarrow> fetchManifestFromResource env obj b = (Done (None, [], Some e'), b))
     \<and> (rrefs = rpre @ rr # rpost
        \<and> (\<forall>p\<in>set rpre. fetchManifestInSingleConfigMap env p = Done (Inr (yamls p))
                          \<and> \<not> fst (FindManifestYAML env (yamls p) obj bmp ign))
        \<and> fetchManifestInSingleConfigMap env rr = Done (Inr c')
        \<and> FindManifestYAML env c' obj bmp ign = (True, ms')
      \<longrightarrow> fetchManifestFromResource env obj b = (Done (ms', rr, None), b))
     \<and> ((\<forall>p\<in>set rrefs. fetchManifestInSingleConfigMap env p = Done (Inr (yamls p))
                          \<and> \<not> fst (FindManifestYAML env (yamls p) obj bmp ign))
      \<longrightarrow> fetchManifestFromResource env obj b =
            (Done (None, [],
               Some ''failed to find a YAML manifest in the specified signature configmaps''), b))"
proof -
  have img: "ImageManifestFetcher_Fetch env obj s = imageFetchLoop env obj mp refs s"
    using Fetch_image_loop[OF assms(1-3)] assms(4) by simp
  have blob: "fetchManifestFromResource env obj b = (resourceFetchLoop env obj bmp ign rrefs, b)"
    using fetchManifestFromResource_loop[OF assms(5-7)] assms(8,9) by simp
  have i1: "ImageManifestFetcher_Fetch env obj s = (Done (None, [], Some e), s2)"
    if "refs = pre @ r # post" "imageRefsSkipped env obj mp pre s = Some s1"
       "fetchManifestInSingleImage env r s1 = (Done (Inl e), s2)"
    using that img imageFetchLoop_skip[OF that(2), of "r # post"] by simp
  have i2: "ImageManifestFetcher_Fetch env obj s = (Done (ms, r, None), s2)"
    if "refs = pre @ r # post" "imageRefsSkipped env obj mp pre s = Some s1"
       "fetchManifestInSingleImage env r s1 = (Done (Inr c), s2)"
       "FindManifestYAML env c obj mp (ignoreFields (self s2)) = (True, ms)"
    using that img imageFetchLoop_skip[OF that(2), of "r # post"] by simp
  have i3: "ImageManifestFetcher_Fetch env obj s =
            (Done (None, [], Some ''failed to find a YAML manifest in the image''), s1)"
    if "imageRefsSkipped env obj mp refs s = Some s1"
    using img imageFetchLoop_skip[OF that, of "[]"] by simp
  have b1: "fetchManifestFromResource env obj b = (Done (None, [], Some e'), b)"
    if "rrefs = rpre @ rr # rpost"
       "\<forall>p\<in>set rpre. fetchManifestInSingleConfigMap env p = Done (Inr (yamls p))
                          \<and> \<not> fst (FindManifestYAML env (yamls p) obj bmp ign)"
       "fetchManifestInSingleConfigMap env rr = Done (Inl e')"
    using that(1,3) blob resourceFetchLoop_skip[OF that(2), of "rr # rpost"] by simp
  have b2: "fetchManifestFromResource env obj b = (Done (ms', rr, None), b)"
    if "rrefs = rpre @ rr # rpost"
       "\<forall>p\<in>set rpre. fetchManifestInSingleConfigMap env p = Done (Inr (yamls p))
                          \<and> \<not> fst (FindManifestYAML env (yamls p) obj bmp ign)"
       "fetchManifestInSingleConfigMap env rr = Done (Inr c')"
       "FindManifestYAML env c' obj bmp ign = (True, ms')"
    using that(1,3,4) blob resourceFetchLoop_skip[OF that(2), of "rr # rpost"] by simp
  have b3: "fetchManifestFromResource env obj b =
            (Done (None, [],
               Some ''failed to find a YAML manifest in the specified signature configmaps''), b)"
    if "\<forall>p\<in>set rrefs. fetchManifestInSingleConfigMap env p = Done (Inr (yamls p))
                          \<and> \<not> fst (FindManifestYAML env (yamls p) obj bmp ign)"
    using blob resourceFetchLoop_skip[OF that, of "[]"] by simp
  show ?thesis using i1 i2 i3 b1 b2 b3 by blast
qed

text \<open>The claim C3 as it was stated fails: the image \<open>bad\<close> cannot be pulled, and \<open>Fetch\<close>
  on \<open>bad,app\<close> returns the error of that pull without pulling \<open>app\<close>, whose manifest
  matches; when nothing matches, the error is the fixed message and no concatenation of
  reasons. The same holds for the config maps \<open>none\<close> and \<open>sig-cm\<close>.\<close>

theorem Fetch_reference_loop_counterexample:
  "splitComma ''bad,app'' = [''bad'', ''app'']
   \<and> fst (ImageManifestFetcher_Fetch sampleEnv (Some ''app'')
           (initState (sampleImageFetcher ''bad,app'') Map.empty))
       = Done (None, [], Some ''failed to get YAMLs in the image: pull failed'')
   \<and> trace (snd (ImageManifestFetcher_Fetch sampleEnv (Some ''app'')
           (initState (sampleImageFetcher ''bad,app'') Map.empty)))
       = [EvPullImage ''bad'']
   \<and> fst (ImageManifestFetcher_Fetch sampleEnv (Some ''app'')
           (initState (sampleImageFetcher ''app'') Map.empty))
       = Done (Some [Some ''app''], ''app'', None)
   \<and> fst (ImageManifestFetcher_Fetch sampleEnv (Some ''app'')
           (initState (sampleImageFetcher ''x,y'') Map.empty))
       = Done (None, [], Some ''failed to find a YAML manifest in the image'')
   \<and> fst (fetchManifestFromResource sampleEnv (Some [])
           (initState (sampleBlobFetcher ''k8s://none,k8s://sig-cm'') (Map.empty :: string \<rightharpoonup> cache_val list)))
       = Done (None, [], Some ''failed to get a configmap: failed to get a configmap: not found'')
   \<and> fst (fetchManifestFromResource sampleEnv (Some [])
           (initState (sampleBlobFetcher ''k8s://sig-cm'') (Map.empty :: string \<rightharpoonup> cache_val list)))
       = Done (Some [Some []], ''k8s://sig-cm'', None)"
  by code_simp

text \<open>The amended claim C3 on lists of two references and of one.\<close>

theorem Fetch_reference_loop_witness:
  "fst (ImageManifestFetcher_Fetch sampleEnv (Some ''app'')
          (initState (sampleImageFetcher ''x,app'') Map.empty))
     = Done (Some [Some ''app''], ''app'', None)
   \<and> fst (ImageManifestFetcher_Fetch sampleEnv (Some ''app'')
          (initState (sampleImageFetcher ''x,bad'') Map.empty))
     = Done (None, [], Some ''failed to get YAMLs in the image: pull failed'')
   \<and> fst (ImageManifestFetcher_Fetch sampleEnv (Some ''app'')
          (initState (sampleImageFetcher ''x,bad'') Map.empty))
     \<noteq> Done (None, [], Some ''failed to find a YAML manifest in the image'')
   \<and> fst (fetchManifestFromResource sampleEnv (Some ''app'')
          (initState (sampleBlobFetcher ''k8s://sig-cm,k8s://none'') (Map.empty :: string \<rightharpoonup> cache_val list)))
     = Done (None, [], Some ''failed to get a configmap: failed to get a configmap: not found'')
   \<and> fst (fetchManifestFromResource sampleEnv (Some ''app'')
          (initState (sampleBlobFetcher ''k8s://sig-cm'') (Map.empty :: string \<rightharpoonup> cache_val list)))
     = Done (None, [],
         Some ''failed to find a YAML manifest in the specified signature configmaps'')"
proof -
  let ?obj = "Some ''app''"
  let ?sA = "initState (sampleImageFetcher ''x,app'') (Map.empty :: string \<rightharpoonup> cache_val list)"
  let ?sB = "initState (sampleImageFetcher ''x,bad'') (Map.empty :: string \<rightharpoonup> cache_val list)"
  let ?bA = "initState (sampleBlobFetcher ''k8s://sig-cm,k8s://none'') (Map.empty :: string \<rightharpoonup> cache_val list)"
  let ?bB = "initState (sampleBlobFetcher ''k8s://sig-cm'') (Map.empty :: string \<rightharpoonup> cache_val list)"
  let ?sA1 = "the (imageRefsSkipped sampleEnv ?obj None [''x''] ?sA)"
  let ?sA2 = "snd (fetchManifestInSingleImage sampleEnv ''app'' ?sA1)"
  let ?sB1 = "the (imageRefsSkipped sampleEnv ?obj None [''x''] ?sB)"
  let ?sB2 = "snd (fetchManifestInSingleImage sampleEnv ''bad'' ?sB1)"
  let ?yamls = "\<lambda>p::string. Some ([]::string)"
  have A1: "imageRefString (self ?sA) = ''x,app''" and A2: "''x,app'' \<noteq> []"
    and A3: "SplitCommaSeparatedString sampleEnv ''x,app'' = [''x''] @ ''app'' # []"
    and A4: "maxNumPtr (maxResourceManifestNum (self ?sA)) = None"
    by code_simp+
  have B1: "imageRefString (self ?sB) = ''x,bad''" and B2: "''x,bad'' \<noteq> []"
    and B3: "SplitCommaSeparatedString sampleEnv ''x,bad'' = [''x''] @ ''bad'' # []"
    and B4: "maxNumPtr (maxResourceManifestNum (self ?sB)) = None"
    by code_simp+
  have C1: "resourceRefString (self ?bA) = ''k8s://sig-cm,k8s://none''"
    and C2: "''k8s://sig-cm,k8s://none'' \<noteq> []"
    and C3: "SplitCommaSeparatedString sampleEnv ''k8s://sig-cm,k8s://none''
               = [''k8s://sig-cm''] @ ''k8s://none'' # []"
    and C4: "maxNumPtr (blobMaxResourceManifestNum (self ?bA)) = None"
    and C5: "blobIgnoreFields (self ?bA) = []"
    by code_simp+
  have D1: "resourceRefString (self ?bB) = ''k8s://sig-cm''"
    and D2: "''k8s://sig-cm'' \<noteq> []"
    and D3: "SplitCommaSeparatedString sampleEnv ''k8s://sig-cm'' = [''k8s://sig-cm'']"
    and D4: "maxNumPtr (blobMaxResourceManifestNum (self ?bB)) = None"
    and D5: "blobIgnoreFields (self ?bB) = []"
    by code_simp+
  have skA: "imageRefsSkipped sampleEnv ?obj None [''x''] ?sA = Some ?sA1"
  proof -
    have "case imageRefsSkipped sampleEnv ?obj None [''x''] ?sA of None \<Rightarrow> False | Some u \<Rightarrow> True"
      by code_simp
    then show ?thesis by (simp split: option.splits)
  qed
  have skB: "imageRefsSkipped sampleEnv ?obj None [''x''] ?sB = Some ?sB1"
  proof -
    have "case imageRefsSkipped sampleEnv ?obj None [''x''] ?sB of None \<Rightarrow> False | Some u \<Rightarrow> True"
      by code_simp
    then show ?thesis by (simp split: option.splits)
  qed
  have fA: "fetchManifestInSingleImage sampleEnv ''app'' ?sA1 = (Done (Inr (Some ''app'')), ?sA2)"
  proof -
    have "fst (fetchManifestInSingleImage sampleEnv ''app'' ?sA1) = Done (Inr (Some ''app''))"
      by code_simp
    then show ?thesis by (simp add: prod_eq_iff)
  qed
  have mA: "FindManifestYAML sampleEnv (Some ''app'') ?obj None (ignoreFields (self ?sA2))
              = (True, Some [Some ''app''])"
    by (simp add: sampleEnv_def)
  have fB: "fetchManifestInSingleImage sampleEnv ''bad'' ?sB1
              = (Done (Inl ''failed to get YAMLs in the image: pull failed''), ?sB2)"
  proof -
    have "fst (fetchManifestInSingleImage sampleEnv ''bad'' ?sB1)
            = Done (Inl ''failed to get YAMLs in the image: pull failed'')"
      by code_simp
    then show ?thesis by (simp add: prod_eq_iff)
  qed
  have cm: "\<forall>p\<in>set [''k8s://sig-cm''].
              fetchManifestInSingleConfigMap sampleEnv p = Done (Inr (?yamls p))
              \<and> \<not> fst (FindManifestYAML sampleEnv (?yamls p) ?obj None [])"
    by code_simp
  have none: "fetchManifestInSingleConfigMap sampleEnv ''k8s://none''
                = Done (Inl ''failed to get a configmap: failed to get a configmap: not found'')"
    by code_simp
  have rA: "ImageManifestFetcher_Fetch sampleEnv ?obj ?sA = (Done (Some [Some ''app''], ''app'', None), ?sA2)"
    using Fetch_reference_loop[OF A1 A2 A3 A4 C1 C2 C3 C4 C5,
            where obj = ?obj and ?s1.0 = ?sA1 and ?s2.0 = ?sA2 and c = "Some ''app''"
              and ms = "Some [Some ''app'']"] skA fA mA
    by blast
  have rC: "fetchManifestFromResource sampleEnv ?obj ?bA
              = (Done (None, [],
                   Some ''failed to get a configmap: failed to get a configmap: not found''), ?bA)"
    using Fetch_reference_loop[OF A1 A2 A3 A4 C1 C2 C3 C4 C5,
            where obj = ?obj and yamls = ?yamls
              and e' = "''failed to get a configmap: failed to get a configmap: not found''"]
          cm none
    by blast
  have rB: "ImageManifestFetcher_Fetch sampleEnv ?obj ?sB
              = (Done (None, [], Some ''failed to get YAMLs in the image: pull failed''), ?sB2)"
    using Fetch_reference_loop[OF B1 B2 B3 B4 D1 D2 D3 D4 D5,
            where obj = ?obj and ?s1.0 = ?sB1 and ?s2.0 = ?sB2
              and e = "''failed to get YAMLs in the image: pull failed''"] skB fB
    by blast
  have rD: "fetchManifestFromResource sampleEnv ?obj ?bB
              = (Done (None, [],
                   Some ''failed to find a YAML manifest in the specified signature configmaps''), ?bB)"
    using Fetch_reference_loop[OF B1 B2 B3 B4 D1 D2 D3 D4 D5,
            where obj = ?obj and yamls = ?yamls] cm
    by blast
  show ?thesis by (simp add: rA rB rC rD)
qed

section \<open>Immutable instances\<close>

text \<open>
  Claim C9. A call of \<open>Verify\<close> or \<open>Fetch\<close> returns with the receiver as it was; the image
  variants change the cache by their own writes only, the blob variants change nothing.
\<close>

theorem instances_unchanged:
  "onlyCacheIO env s (snd (ImageSignatureVerifier_Verify env s))
   \<and> onlyCacheIO env f (snd (ImageManifestFetcher_Fetch env obj f))
   \<and> snd (BlobSignatureVerifier_Verify env b) = b
   \<and> snd (BlobManifestFetcher_Fetch env obj g) = g"
  by (simp add: Verify_image_frame Fetch_image_frame Verify_blob_frame Fetch_blob_frame)

end
